theory Spec2Isabelle
  imports Complex_Main
begin

section \<open>JavaScript numbers\<close>

text \<open>
  The generator computes with JavaScript numbers, the doubles of IEEE 754. A number is
  modelled as a finite real or one of the three special values. Every operation on a
  special value, and division by zero, follows IEEE 754 as JavaScript does. The result of
  an operation on finite operands is the real result brought into the range of the
  doubles by \<open>js_num\<close>: a result that rounding to nearest takes to an infinity is that
  infinity, and a result that it takes to zero is zero. Between these bounds the model
  keeps the real result, where a double keeps the nearest number of 53 significant bits;
  the two zeros are identified.
\<close>

datatype jsnum = Fin real | PInf | NInf | NaN

text \<open>
  The largest double is \<open>2^1024 - 2^971\<close> and the smallest positive one
  \<open>2^-1074\<close>: a magnitude of at least \<open>2^1024 - 2^970\<close> rounds to an infinity,
  a magnitude of at most \<open>2^-1075\<close> rounds to zero.
\<close>

definition js_num :: "real \<Rightarrow> jsnum" where
  "js_num x =
     (if 2 ^ 1024 - 2 ^ 970 \<le> x then PInf
      else if x \<le> - (2 ^ 1024 - 2 ^ 970) then NInf
      else if \<bar>x\<bar> \<le> 1 / 2 ^ 1075 then Fin 0
      else Fin x)"

fun js_neg :: "jsnum \<Rightarrow> jsnum" where
  "js_neg (Fin a) = Fin (- a)"
| "js_neg PInf = NInf"
| "js_neg NInf = PInf"
| "js_neg NaN = NaN"

fun js_add :: "jsnum \<Rightarrow> jsnum \<Rightarrow> jsnum" where
  "js_add (Fin a) (Fin b) = js_num (a + b)"
| "js_add NaN _ = NaN"
| "js_add _ NaN = NaN"
| "js_add PInf NInf = NaN"
| "js_add NInf PInf = NaN"
| "js_add PInf _ = PInf"
| "js_add _ PInf = PInf"
| "js_add NInf _ = NInf"
| "js_add _ NInf = NInf"

definition js_sub :: "jsnum \<Rightarrow> jsnum \<Rightarrow> jsnum" where
  "js_sub a b = js_add a (js_neg b)"

fun js_mul :: "jsnum \<Rightarrow> jsnum \<Rightarrow> jsnum" where
  "js_mul (Fin a) (Fin b) = js_num (a * b)"
| "js_mul NaN _ = NaN"
| "js_mul _ NaN = NaN"
| "js_mul (Fin a) PInf = (if a = 0 then NaN else if 0 < a then PInf else NInf)"
| "js_mul (Fin a) NInf = (if a = 0 then NaN else if 0 < a then NInf else PInf)"
| "js_mul PInf (Fin b) = (if b = 0 then NaN else if 0 < b then PInf else NInf)"
| "js_mul NInf (Fin b) = (if b = 0 then NaN else if 0 < b then NInf else PInf)"
| "js_mul PInf PInf = PInf"
| "js_mul PInf NInf = NInf"
| "js_mul NInf PInf = NInf"
| "js_mul NInf NInf = PInf"

fun js_div :: "jsnum \<Rightarrow> jsnum \<Rightarrow> jsnum" where
  "js_div (Fin a) (Fin b) =
     (if b = 0 then (if a = 0 then NaN else if 0 < a then PInf else NInf)
      else js_num (a / b))"
| "js_div NaN _ = NaN"
| "js_div _ NaN = NaN"
| "js_div (Fin a) PInf = Fin 0"
| "js_div (Fin a) NInf = Fin 0"
| "js_div PInf (Fin b) = (if 0 \<le> b then PInf else NInf)"
| "js_div NInf (Fin b) = (if 0 \<le> b then NInf else PInf)"
| "js_div PInf PInf = NaN"
| "js_div PInf NInf = NaN"
| "js_div NInf PInf = NaN"
| "js_div NInf NInf = NaN"

text \<open>The comparison \<open>a < b\<close>; any comparison with NaN is false.\<close>

fun js_lt :: "jsnum \<Rightarrow> jsnum \<Rightarrow> bool" where
  "js_lt (Fin a) (Fin b) = (a < b)"
| "js_lt NaN _ = False"
| "js_lt _ NaN = False"
| "js_lt _ NInf = False"
| "js_lt PInf _ = False"
| "js_lt NInf _ = True"
| "js_lt _ PInf = True"

definition js_gt :: "jsnum \<Rightarrow> jsnum \<Rightarrow> bool" where
  "js_gt a b = js_lt b a"

fun Math_max :: "jsnum \<Rightarrow> jsnum \<Rightarrow> jsnum" where
  "Math_max (Fin a) (Fin b) = Fin (max a b)"
| "Math_max NaN _ = NaN"
| "Math_max _ NaN = NaN"
| "Math_max PInf _ = PInf"
| "Math_max _ PInf = PInf"
| "Math_max NInf b = b"
| "Math_max a NInf = a"

fun Math_min :: "jsnum \<Rightarrow> jsnum \<Rightarrow> jsnum" where
  "Math_min (Fin a) (Fin b) = Fin (min a b)"
| "Math_min NaN _ = NaN"
| "Math_min _ NaN = NaN"
| "Math_min NInf _ = NInf"
| "Math_min _ NInf = NInf"
| "Math_min PInf b = b"
| "Math_min a PInf = a"

fun Math_abs :: "jsnum \<Rightarrow> jsnum" where
  "Math_abs (Fin a) = Fin \<bar>a\<bar>"
| "Math_abs PInf = PInf"
| "Math_abs NInf = PInf"
| "Math_abs NaN = NaN"

fun Math_sqrt :: "jsnum \<Rightarrow> jsnum" where
  "Math_sqrt (Fin a) = (if a < 0 then NaN else js_num (sqrt a))"
| "Math_sqrt PInf = PInf"
| "Math_sqrt NInf = NaN"
| "Math_sqrt NaN = NaN"

text \<open>The generator takes the tangent of one angle only, 25 degrees.\<close>

fun Math_tan :: "jsnum \<Rightarrow> jsnum" where
  "Math_tan (Fin a) = js_num (tan a)"
| "Math_tan _ = NaN"

definition Math_PI :: jsnum where
  "Math_PI = js_num pi"

section \<open>Vectors, boxes and the scene graph (the part of three.js the generator uses)\<close>

type_synonym vec3 = "jsnum \<times> jsnum \<times> jsnum"

type_synonym point = "real \<times> real \<times> real"

fun vsub :: "vec3 \<Rightarrow> vec3 \<Rightarrow> vec3" where
  "vsub (a, b, c) (d, e, f) = (js_sub a d, js_sub b e, js_sub c f)"

fun vadd :: "vec3 \<Rightarrow> vec3 \<Rightarrow> vec3" where
  "vadd (a, b, c) (d, e, f) = (js_add a d, js_add b e, js_add c f)"

fun multiplyScalar :: "vec3 \<Rightarrow> jsnum \<Rightarrow> vec3" where
  "multiplyScalar (a, b, c) s = (js_mul a s, js_mul b s, js_mul c s)"

fun negate :: "vec3 \<Rightarrow> vec3" where
  "negate (a, b, c) = (js_neg a, js_neg b, js_neg c)"

fun vmin :: "vec3 \<Rightarrow> vec3 \<Rightarrow> vec3" where
  "vmin (a, b, c) (d, e, f) = (Math_min a d, Math_min b e, Math_min c f)"

fun vmax :: "vec3 \<Rightarrow> vec3 \<Rightarrow> vec3" where
  "vmax (a, b, c) (d, e, f) = (Math_max a d, Math_max b e, Math_max c f)"

text \<open>A browser \<open>File\<close>: name, size in bytes and MIME type.\<close>

record jsfile =
  file_name :: string
  file_size :: nat
  file_type :: string

text \<open>A texture decoded by \<open>THREE.TextureLoader\<close> from the file it names.\<close>

datatype texture = Texture jsfile

text \<open>
  A surface appearance that came with the model, or the material
  \<open>applyTextureToModel\<close> creates
  (\<open>new THREE.MeshLambertMaterial({ map: texture, transparent: false })\<close>).
\<close>

datatype material = Loaded nat | MeshLambertMaterial texture

text \<open>
  One object of the scene graph that carries geometry. \<open>isMesh\<close> tells a
  \<open>THREE.Mesh\<close> from a point cloud or a line object; \<open>corners\<close> are the corner
  points of the geometry's bounding box, already carried into the coordinates of the root
  by the matrices of the nodes in between, which no code of the generator changes.
\<close>

record part =
  isMesh :: bool
  material :: material
  corners :: "point list"

text \<open>
  The root \<open>THREE.Object3D\<close> of a model: its own position, rotation (Euler angles,
  order XYZ) and scale, and the objects with geometry below it in traversal order.
\<close>

record object3d =
  position :: vec3
  rotation :: point
  scale :: vec3
  parts :: "part list"

text \<open>
  \<open>Matrix4.makeRotationFromEuler\<close> for the order XYZ, as three rows.
\<close>

fun rotationMatrix :: "point \<Rightarrow> point \<times> point \<times> point" where
  "rotationMatrix (rx, ry, rz) =
     (let a = cos rx; b = sin rx; c = cos ry; d = sin ry; e = cos rz; f = sin rz
      in ((c * e, - (c * f), d),
          (a * f + b * e * d, a * e - b * f * d, - (b * c)),
          (b * f - a * e * d, b * e + a * f * d, a * c)))"

text \<open>
  One row of the world matrix applied to a point: the rotation entries are multiplied by
  the scale of their column (\<open>Matrix4.compose\<close>), then
  \<open>Vector3.applyMatrix4\<close> sums the products and adds the translation.
\<close>

fun applyRow :: "point \<Rightarrow> vec3 \<Rightarrow> jsnum \<Rightarrow> point \<Rightarrow> jsnum" where
  "applyRow (r0, r1, r2) (s0, s1, s2) t (px, py, pz) =
     js_add (js_add (js_add (js_mul (js_mul (js_num r0) s0) (js_num px))
                            (js_mul (js_mul (js_num r1) s1) (js_num py)))
                    (js_mul (js_mul (js_num r2) s2) (js_num pz))) t"

definition applyMatrixWorld :: "object3d \<Rightarrow> point \<Rightarrow> vec3" where
  "applyMatrixWorld obj p =
     (case rotationMatrix (rotation obj) of (row0, row1, row2) \<Rightarrow>
      case position obj of (tx, ty, tz) \<Rightarrow>
        (applyRow row0 (scale obj) tx p,
         applyRow row1 (scale obj) ty p,
         applyRow row2 (scale obj) tz p))"

record box3 =
  box_min :: vec3
  box_max :: vec3

definition makeEmpty :: box3 where
  "makeEmpty = \<lparr>box_min = (PInf, PInf, PInf), box_max = (NInf, NInf, NInf)\<rparr>"

definition expandByPoint :: "box3 \<Rightarrow> vec3 \<Rightarrow> box3" where
  "expandByPoint b p = \<lparr>box_min = vmin (box_min b) p, box_max = vmax (box_max b) p\<rparr>"

text \<open>
  \<open>new THREE.Box3().setFromObject(obj)\<close>: the world matrix of the root is brought up
  to date, and the box grows by the image of every corner of every geometry.
\<close>

definition setFromObject :: "object3d \<Rightarrow> box3" where
  "setFromObject obj =
     foldl expandByPoint makeEmpty
       (map (applyMatrixWorld obj) (concat (map corners (parts obj))))"

fun isEmpty :: "box3 \<Rightarrow> bool" where
  "isEmpty b =
     (case (box_min b, box_max b) of ((a, b, c), (d, e, f)) \<Rightarrow>
        js_lt d a \<or> js_lt e b \<or> js_lt f c)"

definition getCenter :: "box3 \<Rightarrow> vec3" where
  "getCenter b =
     (if isEmpty b then (Fin 0, Fin 0, Fin 0)
      else multiplyScalar (vadd (box_min b) (box_max b)) (Fin 0.5))"

definition getSize :: "box3 \<Rightarrow> vec3" where
  "getSize b =
     (if isEmpty b then (Fin 0, Fin 0, Fin 0) else vsub (box_max b) (box_min b))"

section \<open>calculateModelTransform\<close>

record transform =
  t_scale :: jsnum
  t_position :: vec3
  t_cameraDistance :: jsnum

definition calculateModelTransform :: "object3d \<Rightarrow> jsnum \<Rightarrow> transform" where
  "calculateModelTransform model aspectRatio =
     (let box = setFromObject model;
          center = getCenter box;
          size = getSize box
      in case size of (size_x, size_y, size_z) \<Rightarrow>
      let diagonal = Math_sqrt (js_add (js_add (js_mul size_x size_x) (js_mul size_y size_y))
                                       (js_mul size_z size_z));
          maxDim = Math_max (Math_max size_x size_y) size_z;
          effectiveSize = Math_max diagonal maxDim;
          framePadding = Fin 0.05;
          targetSize = js_sub (Fin 1.8) (js_mul framePadding (Fin 2));
          scale = js_div targetSize effectiveSize;
          fov = Fin 50;
          fovRad = js_div (js_mul fov Math_PI) (Fin 180);
          modelHeight = js_mul effectiveSize scale;
          distanceForHeight =
            js_div modelHeight (js_mul (Fin 2) (Math_tan (js_div fovRad (Fin 2))));
          distanceForWidth =
            js_div modelHeight
              (js_mul (js_mul (Fin 2) (Math_tan (js_div fovRad (Fin 2)))) aspectRatio);
          cameraDistance = js_mul (Math_max distanceForHeight distanceForWidth) (Fin 1.1)
      in \<lparr>t_scale = scale,
          t_position = negate center,
          t_cameraDistance = Math_max cameraDistance (Fin 3.0)\<rparr>)"

section \<open>Promises, errors and the console\<close>

datatype error = Error string

text \<open>
  How a promise ends: fulfilled with a value, rejected with an error, or never settled.
\<close>

datatype 'a promise = Resolved 'a | Rejected error | Pending

text \<open>A console call: its message and the failure reasons passed along with it.\<close>

datatype console_entry =
  ConsoleLog string "string list"
| ConsoleWarn string "string list"
| ConsoleError string "string list"

section \<open>loadModel\<close>

datatype format = GLTF | FBX | OBJ

text \<open>
  The three decoders of three.js, each taken as a parameter: on a URL a decoder calls
  back either with the decoded scene or with its failure reason.
\<close>

record loaders =
  gltfLoader :: "string \<Rightarrow> string + object3d"
  fbxLoader :: "string \<Rightarrow> string + object3d"
  objLoader :: "string \<Rightarrow> string + object3d"

text \<open>
  What a call of \<open>loadModel\<close> leaves behind: the decoders whose \<open>load\<close> was
  called, in call order, the console output, and how the returned promise settles.
\<close>

record load_result =
  attempted :: "format list"
  console :: "console_entry list"
  settled :: "object3d promise"

definition loadModel :: "loaders \<Rightarrow> string \<Rightarrow> load_result" where
  "loadModel ld url =
     (case gltfLoader ld url of
        Inr scene \<Rightarrow> \<lparr>attempted = [GLTF], console = [], settled = Resolved scene\<rparr>
      | Inl gltfError \<Rightarrow>
          (case fbxLoader ld url of
             Inr fbx \<Rightarrow>
               \<lparr>attempted = [GLTF, FBX],
                console = [ConsoleLog ''GLTF loading failed, trying FBX...'' [gltfError]],
                settled = Resolved fbx\<rparr>
           | Inl fbxError \<Rightarrow>
               (case objLoader ld url of
                  Inr object \<Rightarrow>
                    \<lparr>attempted = [GLTF, FBX, OBJ],
                     console = [ConsoleLog ''GLTF loading failed, trying FBX...'' [gltfError],
                                ConsoleLog ''FBX loading failed, trying OBJ...'' [fbxError]],
                     settled = Resolved object\<rparr>
                | Inl objError \<Rightarrow>
                    \<lparr>attempted = [GLTF, FBX, OBJ],
                     console = [ConsoleLog ''GLTF loading failed, trying FBX...'' [gltfError],
                                ConsoleLog ''FBX loading failed, trying OBJ...'' [fbxError],
                                ConsoleError ''All model loaders failed:''
                                  [gltfError, fbxError, objError]],
                     settled = Rejected
                       (Error ''Failed to load 3D model. Supported formats: GLTF, FBX, OBJ'')\<rparr>)))"

section \<open>applyTextureToModel\<close>

text \<open>
  \<open>textureLoader\<close> stands for \<open>THREE.TextureLoader.load\<close>: \<open>Some\<close> texture
  when the success callback runs, \<open>None\<close> when the error callback runs. The function
  returns the model as the call leaves it and how its promise settles.
\<close>

definition applyTextureToModel ::
  "(jsfile \<Rightarrow> texture option) \<Rightarrow> object3d \<Rightarrow> jsfile \<Rightarrow> object3d \<times> unit promise" where
  "applyTextureToModel textureLoader model textureFile =
     (case textureLoader textureFile of
        Some texture \<Rightarrow>
          (model\<lparr>parts :=
             map (\<lambda>child. if isMesh child
                          then child\<lparr>material := MeshLambertMaterial texture\<rparr>
                          else child)
                 (parts model)\<rparr>,
           Resolved ())
      | None \<Rightarrow> (model, Rejected (Error ''Failed to load texture file'')))"

section \<open>generateFrames\<close>

datatype ratio = R16_9 | R4_3 | R1_1 | Auto

record dimensions =
  width :: nat
  height :: nat

text \<open>
  What \<open>renderer.render(scene, camera)\<close> sees: the model as it stands in the scene and
  the camera (vertical field of view 50, at distance \<open>cameraDistance\<close> on the view
  axis, looking at the origin). Lights and clear colour are fixed for a run and left out.
\<close>

record shot =
  shot_model :: object3d
  shot_aspect :: jsnum
  shot_cameraDistance :: jsnum

text \<open>
  A frame: the PNG data URL of the render canvas, that is an image of the size of the
  canvas showing what was rendered.
\<close>

record image =
  img_width :: nat
  img_height :: nat
  img_shot :: shot

text \<open>
  The test \<open>Math.abs(c.x) > 0.001 || Math.abs(c.y) > 0.001 || Math.abs(c.z) > 0.001\<close>
  that guards both corrections.
\<close>

fun offCentre :: "vec3 \<Rightarrow> bool" where
  "offCentre (cx, cy, cz) =
     (js_gt (Math_abs cx) (Fin 0.001) \<or> js_gt (Math_abs cy) (Fin 0.001)
      \<or> js_gt (Math_abs cz) (Fin 0.001))"

text \<open>
  The body of the frame loop for index \<open>i\<close>: the model as the body leaves it, the
  frame pushed and the value passed to \<open>onProgress\<close>.
\<close>

definition renderFrame ::
  "nat \<Rightarrow> dimensions \<Rightarrow> jsnum \<Rightarrow> jsnum \<Rightarrow> vec3 \<Rightarrow> nat \<Rightarrow> object3d
     \<Rightarrow> object3d \<times> image \<times> real" where
  "renderFrame frameCount dims aspectRatio cameraDistance finalCenteredPosition i modelClone =
     (let angle = (real i * (360 / real frameCount) * pi) / 180;
          reset = modelClone\<lparr>position := finalCenteredPosition, rotation := (0, 0, 0)\<rparr>;
          rotated = reset\<lparr>rotation := (fst (rotation reset), angle,
                                         snd (snd (rotation reset)))\<rparr>;
          rotatedCenter = getCenter (setFromObject rotated);
          corrected = (if offCentre rotatedCenter
                       then rotated\<lparr>position := vsub (position rotated) rotatedCenter\<rparr>
                       else rotated);
          dataUrl = \<lparr>img_width = width dims, img_height = height dims,
                     img_shot = \<lparr>shot_model = corrected, shot_aspect = aspectRatio,
                                 shot_cameraDistance = cameraDistance\<rparr>\<rparr>
      in (corrected, dataUrl, real i / real frameCount))"

text \<open>
  The loop \<open>for (let i = 0; i < frameCount; i++)\<close> over the indices still to come,
  with the frames and the progress values collected so far.
\<close>

fun frameLoop ::
  "nat \<Rightarrow> dimensions \<Rightarrow> jsnum \<Rightarrow> jsnum \<Rightarrow> vec3 \<Rightarrow> nat list \<Rightarrow> object3d
     \<Rightarrow> image list \<Rightarrow> real list \<Rightarrow> image list \<times> real list" where
  "frameLoop frameCount dims aspectRatio cameraDistance centred [] modelClone frames reported =
     (frames, reported)"
| "frameLoop frameCount dims aspectRatio cameraDistance centred (i # later) modelClone frames
     reported =
     (case renderFrame frameCount dims aspectRatio cameraDistance centred i modelClone of
        (modelClone', dataUrl, progress) \<Rightarrow>
          frameLoop frameCount dims aspectRatio cameraDistance centred later modelClone'
            (frames @ [dataUrl]) (reported @ [progress]))"

text \<open>
  \<open>generateFrames\<close> returns the frames and, in call order, the values it passed to
  \<open>onProgress\<close>. \<open>frameCount\<close> is a count of frames, a natural number.
\<close>

definition generateFrames ::
  "object3d \<Rightarrow> nat \<Rightarrow> dimensions \<Rightarrow> ratio \<Rightarrow> image list \<times> real list" where
  "generateFrames model frameCount dims ratio =
     (let aspectRatio = (if ratio = R16_9 then js_div (Fin 16) (Fin 9)
                         else if ratio = R4_3 then js_div (Fin 4) (Fin 3)
                         else if ratio = R1_1 then Fin 1
                         else js_div (Fin 16) (Fin 9));
          modelClone = model;
          transform = calculateModelTransform modelClone aspectRatio;
          placed = modelClone\<lparr>position := t_position transform,
                                scale := (t_scale transform, t_scale transform,
                                          t_scale transform)\<rparr>;
          scaledCenter = getCenter (setFromObject placed);
          tuned = placed\<lparr>position := vsub (position placed) scaledCenter\<rparr>;
          finalCenter = getCenter (setFromObject tuned);
          adjusted = (if offCentre finalCenter
                      then tuned\<lparr>position := vsub (position tuned) finalCenter\<rparr>
                      else tuned);
          finalCenteredPosition = position adjusted
      in frameLoop frameCount dims aspectRatio (t_cameraDistance transform)
           finalCenteredPosition [0..<frameCount] adjusted [] [])"

section \<open>createSpriteStrip\<close>

text \<open>
  A 2D canvas is kept as its size and the \<open>drawImage\<close> calls made on it, each with the
  image drawn and the destination rectangle \<open>(dx, dy, dWidth, dHeight)\<close>.
\<close>

record drawCall =
  drawn :: image
  dx :: nat
  dy :: nat
  dWidth :: nat
  dHeight :: nat

record canvas =
  canvas_width :: nat
  canvas_height :: nat
  draws :: "drawCall list"

definition drawImage :: "canvas \<Rightarrow> image \<Rightarrow> nat \<Rightarrow> nat \<Rightarrow> nat \<Rightarrow> nat \<Rightarrow> canvas" where
  "drawImage ctx img x y w h =
     ctx\<lparr>draws := draws ctx @ [\<lparr>drawn = img, dx = x, dy = y, dWidth = w, dHeight = h\<rparr>]\<rparr>"

text \<open>
  The \<open>onload\<close> handlers, run in the order in which the images finish loading
  (\<open>loadOrder\<close> lists the indices of the images that load; an index that names no image
  never fires). The promise resolves with the canvas as it is when the counter reaches the
  number of frames, and stays pending when the events run out before that.
\<close>

fun onloadEvents ::
  "image list \<Rightarrow> dimensions \<Rightarrow> nat list \<Rightarrow> canvas \<Rightarrow> nat \<Rightarrow> canvas promise" where
  "onloadEvents frames dims [] stripCanvas loadedImages = Pending"
| "onloadEvents frames dims (index # later) stripCanvas loadedImages =
     (if index < length frames
      then (let painted = drawImage stripCanvas (frames ! index) (index * width dims) 0
                            (width dims) (height dims);
                loadedImages' = loadedImages + 1
            in if loadedImages' = length frames then Resolved painted
               else onloadEvents frames dims later painted loadedImages')
      else onloadEvents frames dims later stripCanvas loadedImages)"

definition createSpriteStrip :: "image list \<Rightarrow> dimensions \<Rightarrow> nat list \<Rightarrow> canvas promise" where
  "createSpriteStrip frames dims loadOrder =
     onloadEvents frames dims loadOrder
       \<lparr>canvas_width = width dims * length frames, canvas_height = height dims, draws = []\<rparr>
       0"

text \<open>The pixels a \<open>drawImage\<close> call paints: its destination rectangle.\<close>

definition covers :: "drawCall \<Rightarrow> nat \<Rightarrow> nat \<Rightarrow> bool" where
  "covers d x y \<longleftrightarrow> dx d \<le> x \<and> x < dx d + dWidth d \<and> dy d \<le> y \<and> y < dy d + dHeight d"

text \<open>
  The \<open>drawImage\<close> call of the \<open>onload\<close> handler of frame \<open>i\<close>: the frame,
  at horizontal offset \<open>i * width\<close>, at the top, in a rectangle of the frame size.
\<close>

definition slot :: "image list \<Rightarrow> dimensions \<Rightarrow> nat \<Rightarrow> drawCall" where
  "slot frames dims i =
     \<lparr>drawn = frames ! i, dx = i * width dims, dy = 0,
      dWidth = width dims, dHeight = height dims\<rparr>"

section \<open>generateSpriteStrip\<close>

fun getCanvasDimensions :: "ratio \<Rightarrow> dimensions" where
  "getCanvasDimensions R16_9 = \<lparr>width = 1920, height = 1080\<rparr>"
| "getCanvasDimensions R4_3 = \<lparr>width = 1600, height = 1200\<rparr>"
| "getCanvasDimensions R1_1 = \<lparr>width = 1080, height = 1080\<rparr>"
| "getCanvasDimensions Auto = \<lparr>width = 1920, height = 1080\<rparr>"

text \<open>
  The artifact. The fields made from the clock and the random generator (\<open>id\<close>,
  \<open>createdAt\<close>, \<open>uniqueId\<close>) and the constant texts are left out.
\<close>

record metadata =
  originalFileName :: string
  fileSize :: nat
  fileType :: string
  meta_width :: nat
  meta_height :: nat

record spriteStripData =
  spriteStripUrl :: canvas
  modelUrl :: string
  data_frameCount :: nat
  data_ratio :: ratio
  data_metadata :: metadata

text \<open>
  The options the run reads. \<open>onGenerate\<close> is a plain callback that returns or throws
  (\<open>Some\<close> error); \<open>onSubmit\<close> returns a promise that the run awaits.
\<close>

record options =
  opt_frameCount :: "nat option"
  opt_ratio :: "ratio option"
  onGenerate :: "(spriteStripData \<Rightarrow> error option) option"
  onSubmit :: "(spriteStripData \<Rightarrow> unit promise) option"

text \<open>
  Everything a run depends on besides its two arguments: the options, the texture kept in
  the hook state, and the behaviour of the browser and of three.js during the run.
\<close>

record env =
  options :: options
  appliedTexture :: "jsfile option"
  createObjectURL :: "jsfile \<Rightarrow> string"
  modelLoaders :: loaders
  textureLoader :: "jsfile \<Rightarrow> texture option"
  loadOrder :: "nat list"

text \<open>
  A run: the arguments of the calls of \<open>setProgress\<close> in call order, and how the
  promise returned by \<open>generateSpriteStrip\<close> ends. \<open>Resolved None\<close> is the early
  \<open>return\<close> without a model file, \<open>Resolved (Some data)\<close> the finished artifact,
  \<open>Rejected\<close> the error thrown again by the \<open>catch\<close> block.
\<close>

record run =
  run_progress :: "real list"
  run_outcome :: "spriteStripData option promise"

text \<open>
  The end of the \<open>try\<close> block, once the strip is made: the artifact is handed to
  \<open>onGenerate\<close>, then to \<open>onSubmit\<close>, which is awaited, and returned. An error
  thrown by either makes the run fail. \<open>shown\<close> is what \<open>setProgress\<close> has been
  called with by then.
\<close>

definition deliver :: "options \<Rightarrow> real list \<Rightarrow> spriteStripData \<Rightarrow> run" where
  "deliver opts shown spriteData =
     (case (case onGenerate opts of None \<Rightarrow> None | Some g \<Rightarrow> g spriteData) of
        Some e \<Rightarrow> \<lparr>run_progress = shown, run_outcome = Rejected e\<rparr>
      | None \<Rightarrow>
         (case onSubmit opts of
            None \<Rightarrow> \<lparr>run_progress = shown, run_outcome = Resolved (Some spriteData)\<rparr>
          | Some submit \<Rightarrow>
             (case submit spriteData of
                Resolved _ \<Rightarrow>
                  \<lparr>run_progress = shown, run_outcome = Resolved (Some spriteData)\<rparr>
              | Rejected e \<Rightarrow> \<lparr>run_progress = shown, run_outcome = Rejected e\<rparr>
              | Pending \<Rightarrow> \<lparr>run_progress = shown, run_outcome = Pending\<rparr>)))"

text \<open>
  The middle of the \<open>try\<close> block, from \<open>setProgress(20)\<close> on, for the model as the
  texture step leaves it: the frames are generated, the strip is composed, progress is
  set to 100 twice and the artifact is built.
\<close>

definition renderAndCompose ::
  "env \<Rightarrow> jsfile \<Rightarrow> string \<Rightarrow> nat \<Rightarrow> ratio \<Rightarrow> dimensions \<Rightarrow> object3d \<Rightarrow> run" where
  "renderAndCompose env mFile url frameCount ratio dims model =
     (case generateFrames model frameCount dims ratio of
        (frames, reported) \<Rightarrow>
          (let shown = [0, 10, 20] @ map (\<lambda>p. 20 + p * 0.7) reported @ [90]
           in case createSpriteStrip frames dims (loadOrder env) of
                Pending \<Rightarrow> \<lparr>run_progress = shown, run_outcome = Pending\<rparr>
              | Rejected e \<Rightarrow> \<lparr>run_progress = shown, run_outcome = Rejected e\<rparr>
              | Resolved strip \<Rightarrow>
                  deliver (options env) (shown @ [100, 100])
                    \<lparr>spriteStripUrl = strip, modelUrl = url,
                     data_frameCount = frameCount, data_ratio = ratio,
                     data_metadata =
                       \<lparr>originalFileName = file_name mFile, fileSize = file_size mFile,
                        fileType = file_type mFile, meta_width = width dims,
                        meta_height = height dims\<rparr>\<rparr>))"

text \<open>
  The whole function: the early return, the options, the model load, and the texture step
  whose failure is caught and ignored. Every other error leaves through the \<open>catch\<close>
  block, which throws it again.
\<close>

definition generateSpriteStrip :: "env \<Rightarrow> jsfile option \<Rightarrow> jsfile option \<Rightarrow> run" where
  "generateSpriteStrip env modelFile textureFile =
     (case modelFile of
        None \<Rightarrow> \<lparr>run_progress = [], run_outcome = Resolved None\<rparr>
      | Some mFile \<Rightarrow>
         (let frameCount = (case opt_frameCount (options env) of
                              None \<Rightarrow> 18 | Some n \<Rightarrow> if n = 0 then 18 else n);
              ratio = (case opt_ratio (options env) of None \<Rightarrow> R16_9 | Some r \<Rightarrow> r);
              dims = getCanvasDimensions ratio;
              url = createObjectURL env mFile
          in case settled (loadModel (modelLoaders env) url) of
               Rejected e \<Rightarrow> \<lparr>run_progress = [0, 10], run_outcome = Rejected e\<rparr>
             | Pending \<Rightarrow> \<lparr>run_progress = [0, 10], run_outcome = Pending\<rparr>
             | Resolved model \<Rightarrow>
                (let textureToUse = (case appliedTexture env of
                                       Some t \<Rightarrow> Some t | None \<Rightarrow> textureFile);
                     textured = (case textureToUse of
                                   None \<Rightarrow> (model, Resolved ())
                                 | Some t \<Rightarrow> applyTextureToModel (textureLoader env) model t)
                 in case textured of
                      (_, Pending) \<Rightarrow> \<lparr>run_progress = [0, 10], run_outcome = Pending\<rparr>
                    | (model', _) \<Rightarrow>
                        renderAndCompose env mFile url frameCount ratio dims model')))"

text \<open>
  The calls of the two hooks at the end of the \<open>try\<close> block on their own, and how
  they end for the artifact: with the error that \<open>onGenerate\<close> throws, else as the
  promise of \<open>onSubmit\<close> does; a hook that is not configured is not called.
\<close>

definition hooks :: "options \<Rightarrow> spriteStripData \<Rightarrow> unit promise" where
  "hooks opts spriteData =
     (case (case onGenerate opts of None \<Rightarrow> None | Some g \<Rightarrow> g spriteData) of
        Some e \<Rightarrow> Rejected e
      | None \<Rightarrow>
         (case onSubmit opts of None \<Rightarrow> Resolved () | Some submit \<Rightarrow> submit spriteData))"

text \<open>The frame count a run uses: \<open>options.frameCount || 18\<close>.\<close>

definition effectiveFrameCount :: "env \<Rightarrow> nat" where
  "effectiveFrameCount env =
     (case opt_frameCount (options env) of None \<Rightarrow> 18 | Some n \<Rightarrow> if n = 0 then 18 else n)"

text \<open>
  What \<open>setProgress\<close> has been called with when compositing begins, for \<open>n\<close>
  frames: 0, 10, 20, then \<open>20 + (i / n) * 0.7\<close> for each frame, then 90.
\<close>

definition shown :: "nat \<Rightarrow> real list" where
  "shown n = [0, 10, 20] @ map (\<lambda>p. 20 + p * 0.7) (map (\<lambda>i. real i / real n) [0..<n]) @ [90]"

section \<open>The framing rules as the specification words them\<close>

text \<open>
  Specification 4.3, steps 2 and 3: the effective size is the larger of the Euclidean
  diagonal of the extents and the largest single extent; the target size is 1.8 less a
  padding of 0.05 on each side; the scale is the target size over the effective size.
\<close>

definition spec_effectiveSize :: "real \<Rightarrow> real \<Rightarrow> real \<Rightarrow> real" where
  "spec_effectiveSize sx sy sz = max (sqrt (sx * sx + sy * sy + sz * sz)) (max (max sx sy) sz)"

definition spec_scale :: "real \<Rightarrow> real \<Rightarrow> real \<Rightarrow> real" where
  "spec_scale sx sy sz = (1.8 - 2 * 0.05) / spec_effectiveSize sx sy sz"

section \<open>Decoding as the specification words it\<close>

text \<open>
  Specification 4.1 and 9: an ordered list of decoders over one result type; the first
  decoder that succeeds gives the model and the ones after it are not tried. The function
  returns the decoders tried, the failure reasons collected, and the model if there is one.
\<close>

definition decoder :: "loaders \<Rightarrow> format \<Rightarrow> string \<Rightarrow> string + object3d" where
  "decoder ld f = (case f of GLTF \<Rightarrow> gltfLoader ld | FBX \<Rightarrow> fbxLoader ld | OBJ \<Rightarrow> objLoader ld)"

fun spec_firstSuccess ::
  "loaders \<Rightarrow> string \<Rightarrow> format list \<Rightarrow> format list \<times> string list \<times> object3d option" where
  "spec_firstSuccess ld url [] = ([], [], None)"
| "spec_firstSuccess ld url (f # fs) =
     (case decoder ld f url of
        Inr m \<Rightarrow> ([f], [], Some m)
      | Inl reason \<Rightarrow>
          (case spec_firstSuccess ld url fs of
             (tried, reasons, r) \<Rightarrow> (f # tried, reason # reasons, r)))"

text \<open>Specification 4.5 and 8: an angle given in degrees, in radians.\<close>

definition degrees :: "real \<Rightarrow> real" where
  "degrees d = d * pi / 180"

text \<open>
  Specification 3 and 8: a centre lies within 1e-3 units of the origin on every axis. A
  coordinate that is not a finite number is not within any distance.
\<close>

fun within_eps :: "jsnum \<Rightarrow> bool" where
  "within_eps (Fin a) = (\<bar>a\<bar> \<le> 0.001)"
| "within_eps _ = False"

fun spec_centred :: "vec3 \<Rightarrow> bool" where
  "spec_centred (a, b, c) = (within_eps a \<and> within_eps b \<and> within_eps c)"

section \<open>Example inputs\<close>

text \<open>A model of one mesh whose bounding box has the extents 1, 2 and 2.\<close>

definition box_model :: object3d where
  "box_model =
     \<lparr>position = (Fin 0, Fin 0, Fin 0), rotation = (0, 0, 0), scale = (Fin 1, Fin 1, Fin 1),
      parts = [\<lparr>isMesh = True, material = Loaded 0, corners = [(0, 0, 0), (1, 2, 2)]\<rparr>]\<rparr>"

text \<open>A model whose whole geometry is the single point \<open>(1, 2, 3)\<close>.\<close>

definition point_model :: object3d where
  "point_model =
     \<lparr>position = (Fin 0, Fin 0, Fin 0), rotation = (0, 0, 0), scale = (Fin 1, Fin 1, Fin 1),
      parts = [\<lparr>isMesh = True, material = Loaded 0, corners = [(1, 2, 3)]\<rparr>]\<rparr>"

text \<open>
  A model of one mesh whose bounding box is a cube of side \<open>2^700\<close>, about 5.3e210.
\<close>

definition huge_side :: real where
  "huge_side = 2 ^ 700"

definition huge_model :: object3d where
  "huge_model =
     \<lparr>position = (Fin 0, Fin 0, Fin 0), rotation = (0, 0, 0), scale = (Fin 1, Fin 1, Fin 1),
      parts = [\<lparr>isMesh = True, material = Loaded 0,
                corners = [(0, 0, 0), (huge_side, huge_side, huge_side)]\<rparr>]\<rparr>"

text \<open>
  A frame of the given size that shows the box model turned by the given angle; two such
  frames of size 2 by 1; and a frame of size 1 by 1.
\<close>

definition example_frame :: "nat \<Rightarrow> nat \<Rightarrow> real \<Rightarrow> image" where
  "example_frame w h angle =
     \<lparr>img_width = w, img_height = h,
      img_shot = \<lparr>shot_model = box_model\<lparr>rotation := (0, angle, 0)\<rparr>,
                  shot_aspect = Fin 1, shot_cameraDistance = Fin 3\<rparr>\<rparr>"

definition two_frames :: "image list" where
  "two_frames = [example_frame 2 1 0, example_frame 2 1 pi]"

definition small_frame :: image where
  "small_frame = example_frame 1 1 0"

text \<open>Decoders that all fail, each with the given reason.\<close>

definition failing_loaders :: "string \<Rightarrow> loaders" where
  "failing_loaders why =
     \<lparr>gltfLoader = (\<lambda>url. Inl why), fbxLoader = (\<lambda>url. Inl why), objLoader = (\<lambda>url. Inl why)\<rparr>"

text \<open>
  A model file and a texture file; decoders of which the first succeeds with the box
  model; and a run environment for one frame at ratio 1:1, in which every texture fails to
  load and the single frame image loads, with the given submission hook.
\<close>

definition model_file :: jsfile where
  "model_file = \<lparr>file_name = ''chair.glb'', file_size = 1024, file_type = ''model/gltf-binary''\<rparr>"

definition texture_file :: jsfile where
  "texture_file = \<lparr>file_name = ''wood.png'', file_size = 512, file_type = ''image/png''\<rparr>"

definition gltf_only :: loaders where
  "gltf_only =
     \<lparr>gltfLoader = (\<lambda>url. Inr box_model), fbxLoader = (\<lambda>url. Inl ''not an FBX file''),
      objLoader = (\<lambda>url. Inl ''not an OBJ file'')\<rparr>"

definition example_env :: "(spriteStripData \<Rightarrow> unit promise) option \<Rightarrow> env" where
  "example_env submit =
     \<lparr>options = \<lparr>opt_frameCount = Some 1, opt_ratio = Some R1_1, onGenerate = None,
                   onSubmit = submit\<rparr>,
      appliedTexture = None,
      createObjectURL = (\<lambda>f. ''blob:'' @ file_name f),
      modelLoaders = gltf_only,
      textureLoader = (\<lambda>f. None),
      loadOrder = [0]\<rparr>"

section \<open>Facts about numbers\<close>

lemma js_num_0: "js_num 0 = Fin 0"
  by (simp add: js_num_def)

lemma js_num_moderate:
  assumes "1 / 2 ^ 20 \<le> \<bar>x\<bar>" and "\<bar>x\<bar> \<le> 2 ^ 20"
  shows "js_num x = Fin x"
proof -
  have "(2::real) ^ 20 < 2 ^ 1024 - 2 ^ 970" by simp
  with assms(2) have hi: "\<bar>x\<bar> < 2 ^ 1024 - 2 ^ 970" by linarith
  have "(1::real) / 2 ^ 1075 < 1 / 2 ^ 20" by simp
  with assms(1) have lo: "1 / 2 ^ 1075 < \<bar>x\<bar>" by linarith
  from hi lo show ?thesis
    unfolding js_num_def by (auto simp: abs_if split: if_splits)
qed

lemma js_num_huge:
  assumes "2 ^ 1024 \<le> x"
  shows "js_num x = PInf"
proof -
  have "(2::real) ^ 1024 - 2 ^ 970 \<le> 2 ^ 1024" by simp
  with assms show ?thesis
    unfolding js_num_def by simp
qed

lemma js_num_1: "js_num 1 = Fin 1"
  by (rule js_num_moderate) simp_all

lemma huge_side_pos: "0 < huge_side"
  by (simp add: huge_side_def)

lemma js_num_huge_side: "js_num huge_side = Fin huge_side"
proof -
  have "(2::real) ^ 700 < 2 ^ 1024 - 2 ^ 970" by simp
  moreover have "(1::real) / 2 ^ 1075 < 2 ^ 700"
    by (simp add: field_simps)
  ultimately show ?thesis
    unfolding js_num_def huge_side_def by (simp add: abs_if)
qed

lemma huge_side_square: "js_num (huge_side * huge_side) = PInf"
proof -
  have "(2::real) ^ 1024 \<le> 2 ^ 700 * 2 ^ 700" by simp
  then show ?thesis
    unfolding huge_side_def by (rule js_num_huge)
qed

section \<open>calculateModelTransform and generateFrames at a model without extent\<close>

text \<open>
  The bounding box of the single point has the extents 0, 0 and 0, so the effective size is
  0 and the scale \<open>1.7 / 0\<close> is Infinity. The height to fit, \<open>0 * Infinity\<close>, is
  NaN, and so is every distance computed from it: \<open>Math.max(NaN, 3.0)\<close> is NaN.
\<close>

lemma point_model_box:
  "setFromObject point_model =
     \<lparr>box_min = (Fin 1, Fin 2, Fin 3), box_max = (Fin 1, Fin 2, Fin 3)\<rparr>"
  by (simp add: setFromObject_def point_model_def applyMatrixWorld_def makeEmpty_def
      expandByPoint_def js_num_0 js_num_moderate)

lemma targetSize_value: "js_sub (Fin 1.8) (js_mul (Fin 0.05) (Fin 2)) = Fin 1.7"
  by (simp add: js_sub_def js_num_moderate)

lemma point_transform:
  "calculateModelTransform point_model a =
     \<lparr>t_scale = PInf, t_position = (Fin (- 1), Fin (- 2), Fin (- 3)), t_cameraDistance = NaN\<rparr>"
  by (simp add: calculateModelTransform_def point_model_box getSize_def getCenter_def
      js_sub_def Let_def js_num_0 js_num_moderate)

lemma point_model_blown_up:
  assumes "p = (NaN, NaN, NaN) \<or> p = (Fin a, Fin b, Fin c)"
  shows "setFromObject \<lparr>position = p, rotation = (0, 0, 0), scale = (PInf, PInf, PInf),
                          parts = parts point_model\<rparr>
           = \<lparr>box_min = (NaN, NaN, NaN), box_max = (NaN, NaN, NaN)\<rparr>"
  using assms
  by (auto simp add: setFromObject_def point_model_def applyMatrixWorld_def makeEmpty_def
      expandByPoint_def js_num_0 js_num_moderate)

lemma NaN_center:
  "getCenter \<lparr>box_min = (NaN, NaN, NaN), box_max = (NaN, NaN, NaN)\<rparr> = (NaN, NaN, NaN)"
  by (simp add: getCenter_def)

lemma point_frames:
  "fst (generateFrames point_model 1 d R1_1) =
     [\<lparr>img_width = width d, img_height = height d,
       img_shot = \<lparr>shot_model = \<lparr>position = (NaN, NaN, NaN), rotation = (0, 0, 0),
                                  scale = (PInf, PInf, PInf), parts = parts point_model\<rparr>,
                   shot_aspect = Fin 1, shot_cameraDistance = NaN\<rparr>\<rparr>]"
proof -
  have placed: "point_model\<lparr>position := (Fin (- 1), Fin (- 2), Fin (- 3)),
                            scale := (PInf, PInf, PInf)\<rparr>
      = \<lparr>position = (Fin (- 1), Fin (- 2), Fin (- 3)), rotation = (0, 0, 0),
         scale = (PInf, PInf, PInf), parts = parts point_model\<rparr>"
    by (simp add: point_model_def)
  show ?thesis
    by (simp add: generateFrames_def point_transform Let_def placed point_model_blown_up
        NaN_center js_gt_def js_sub_def renderFrame_def)
qed

text \<open>
  C2 at the model of a single point, one frame, ratio 1:1: the centre of the bounding box
  of the model as rendered is NaN on every axis, hence not within 1e-3 of the origin.
\<close>

theorem generateFrames_point_model_not_centred:
  "getCenter (setFromObject (shot_model (img_shot
      (fst (generateFrames point_model 1 \<lparr>width = 1080, height = 1080\<rparr> R1_1) ! 0))))
     = (NaN, NaN, NaN)
   \<and> \<not> spec_centred (getCenter (setFromObject (shot_model (img_shot
      (fst (generateFrames point_model 1 \<lparr>width = 1080, height = 1080\<rparr> R1_1) ! 0)))))"
  unfolding point_frames
  by (simp add: point_model_blown_up NaN_center)

text \<open>
  C4 at the model of a single point, for every aspect ratio: the camera distance that
  \<open>calculateModelTransform\<close> returns is NaN. It is not a number of at least 3.0: the
  minimum distance of 3.0 units is not kept.
\<close>

theorem calculateModelTransform_point_model_distance:
  "t_cameraDistance (calculateModelTransform point_model a) = NaN
   \<and> (\<nexists>d. t_cameraDistance (calculateModelTransform point_model a) = Fin d \<and> 3 \<le> d)"
  by (simp add: point_transform)

section \<open>calculateModelTransform at a model of extreme extents\<close>

text \<open>
  The extents of the huge model are positive and finite, but their squares are not: the
  product \<open>size.x * size.x\<close> is Infinity, and with it the diagonal and the effective
  size. The scale \<open>1.7 / Infinity\<close> is 0, the height to fit \<open>Infinity * 0\<close> is NaN,
  and so is the camera distance.
\<close>

lemma huge_model_box:
  "setFromObject huge_model =
     \<lparr>box_min = (Fin 0, Fin 0, Fin 0), box_max = (Fin huge_side, Fin huge_side, Fin huge_side)\<rparr>"
  using huge_side_pos
  by (simp add: setFromObject_def huge_model_def applyMatrixWorld_def makeEmpty_def
      expandByPoint_def js_num_0 js_num_1 js_num_huge_side)

lemma huge_model_size:
  "getSize (setFromObject huge_model) = (Fin huge_side, Fin huge_side, Fin huge_side)"
  using huge_side_pos
  by (simp add: huge_model_box getSize_def js_sub_def js_num_huge_side)

lemma huge_transform:
  "t_scale (calculateModelTransform huge_model a) = Fin 0
   \<and> t_cameraDistance (calculateModelTransform huge_model a) = NaN"
  by (simp add: calculateModelTransform_def huge_model_size huge_side_square Let_def
      js_sub_def js_num_0 js_num_moderate)

text \<open>
  C5 at the huge model: its bounding box has the positive finite extents \<open>2^700\<close>, the
  scale by the formula \<open>(1.8 - 2 * 0.05) / effectiveSize\<close> is a positive number, and the
  scale that \<open>calculateModelTransform\<close> returns is 0.
\<close>

theorem calculateModelTransform_huge_model_scale:
  "getSize (setFromObject huge_model) = (Fin huge_side, Fin huge_side, Fin huge_side)
   \<and> 0 < huge_side
   \<and> 0 < spec_scale huge_side huge_side huge_side
   \<and> t_scale (calculateModelTransform huge_model a) = Fin 0"
  using huge_side_pos
  by (simp add: huge_model_size huge_transform spec_scale_def spec_effectiveSize_def)

text \<open>
  C10 at the huge model: its bounding box has the positive finite extents \<open>2^700\<close>, and
  for every aspect ratio, so for 16:9, 4:3 and 1:1, the camera distance that
  \<open>calculateModelTransform\<close> returns is NaN, not 3.0.
\<close>

theorem calculateModelTransform_huge_model_distance:
  "getSize (setFromObject huge_model) = (Fin huge_side, Fin huge_side, Fin huge_side)
   \<and> 0 < huge_side
   \<and> t_cameraDistance (calculateModelTransform huge_model a) = NaN
   \<and> t_cameraDistance (calculateModelTransform huge_model a) \<noteq> Fin 3"
  using huge_side_pos
  by (simp add: huge_model_size huge_transform)

section \<open>calculateModelTransform at a model of moderate extents\<close>

text \<open>
  For comparison with the two models above: when the three extents lie between
  \<open>2^-500\<close> and \<open>2^500\<close>, no intermediate result leaves the range of the doubles.
  The effective size is then the larger of the diagonal and the largest extent, the scale
  is 1.7 over it, the height to fit is 1.7, and for an aspect ratio of at least 1 the
  camera distance is the floor 3.0.
\<close>

lemma js_num_in_range:
  assumes "1 / 2 ^ 1075 < \<bar>x\<bar>" and "\<bar>x\<bar> < 2 ^ 1024 - 2 ^ 970"
  shows "js_num x = Fin x"
  using assms unfolding js_num_def by (auto simp: abs_if split: if_splits)

lemma js_num_between:
  assumes "1 / 2 ^ 1002 \<le> x" and "x \<le> 2 ^ 1002"
  shows "js_num x = Fin x"
proof (rule js_num_in_range)
  have "(1::real) / 2 ^ 1075 < 1 / 2 ^ 1002" by simp
  also have "\<dots> \<le> x" by (rule assms(1))
  finally have "1 / 2 ^ 1075 < x" .
  then show "1 / 2 ^ 1075 < \<bar>x\<bar>" by simp
  have "0 < x" using assms(1) by (rule less_le_trans [rotated]) simp
  have "(2::real) ^ 1002 < 2 ^ 1024 - 2 ^ 970" by simp
  with assms(2) have "x < 2 ^ 1024 - 2 ^ 970" by linarith
  with \<open>0 < x\<close> show "\<bar>x\<bar> < 2 ^ 1024 - 2 ^ 970" by simp
qed

lemma js_num_nonneg:
  assumes "0 \<le> x" and "x \<le> 2 ^ 1002"
  shows "\<exists>w. js_num x = Fin w \<and> 0 \<le> w \<and> w \<le> x"
proof -
  have "(2::real) ^ 1002 < 2 ^ 1024 - 2 ^ 970" by simp
  with assms(2) have "x < 2 ^ 1024 - 2 ^ 970" by linarith
  with assms(1) show ?thesis
    unfolding js_num_def by auto
qed

text \<open>
  The tangent of 22.5 degrees solves \<open>t^2 + 2 t - 1 = 0\<close>, so it exceeds 2/5.
\<close>

lemma tan_pi_8_quadratic: "(tan (pi / 8))\<^sup>2 + 2 * tan (pi / 8) - 1 = (0::real)"
proof -
  have c1: "cos (pi / 8) \<noteq> (0::real)"
    by (rule less_imp_neq [THEN not_sym], rule cos_gt_zero_pi) simp_all
  have c2: "cos (2 * (pi / 8)) \<noteq> (0::real)"
    by (rule less_imp_neq [THEN not_sym], rule cos_gt_zero_pi) simp_all
  have "tan (2 * (pi / 8)) = 2 * tan (pi / 8) / (1 - (tan (pi / 8))\<^sup>2)"
    using tan_double [OF c1 c2] .
  moreover have "tan (2 * (pi / 8)) = (1::real)"
    using tan_45 by simp
  ultimately have e: "2 * tan (pi / 8) / (1 - (tan (pi / 8))\<^sup>2) = (1::real)"
    by simp
  then have "1 - (tan (pi / 8))\<^sup>2 \<noteq> (0::real)"
    by (metis div_by_0 zero_neq_one)
  with e have "2 * tan (pi / 8) = 1 - (tan (pi / 8))\<^sup>2"
    by (simp add: field_simps)
  then show ?thesis by simp
qed

lemma tan_pi_8_lower: "(2 / 5 :: real) < tan (pi / 8)"
proof (rule ccontr)
  assume "\<not> 2 / 5 < tan (pi / 8)"
  then have le: "tan (pi / 8) \<le> 2 / 5" by simp
  have pos: "0 < tan (pi / 8)"
    by (rule tan_gt_zero) simp_all
  have "(tan (pi / 8))\<^sup>2 \<le> (2 / 5)\<^sup>2"
    using le pos by (intro power_mono) simp_all
  then have "(tan (pi / 8))\<^sup>2 + 2 * tan (pi / 8) - 1 < 0"
    using le by (simp add: power2_eq_square)
  with tan_pi_8_quadratic show False by simp
qed

text \<open>Half the field of view is 25 degrees, and its tangent exceeds 2/5.\<close>

lemma tan_half_fov_lower: "(2 / 5 :: real) < tan (5 * pi / 36)"
proof -
  have "tan (pi / 8) \<le> tan (5 * pi / 36)"
    by (rule tan_mono_le) simp_all
  with tan_pi_8_lower show ?thesis by simp
qed


lemma tan_half_fov_upper: "tan (5 * pi / 36) < (1::real)"
proof -
  have "tan (5 * pi / 36) < tan (pi / 4)"
    by (rule tan_monotone) simp_all
  then show ?thesis by (simp add: tan_45)
qed

lemma Math_PI_value: "Math_PI = Fin pi"
proof -
  have "2 \<le> pi" by (rule pi_ge_two)
  have "pi < 4" by (rule pi_less_4)
  show ?thesis
    unfolding Math_PI_def
    by (rule js_num_moderate) (use \<open>2 \<le> pi\<close> \<open>pi < 4\<close> in simp_all)
qed


lemma tan_half_fov:
  "Math_tan (js_div (js_div (js_mul (Fin 50) Math_PI) (Fin 180)) (Fin 2))
     = Fin (tan (5 * pi / 36))"
proof -
  have p: "2 \<le> pi" "pi < 4"
    using pi_ge_two pi_less_4 by simp_all
  have a: "js_mul (Fin 50) Math_PI = Fin (50 * pi)"
    unfolding Math_PI_value js_mul.simps
    by (rule js_num_moderate) (use p in simp_all)
  have b: "js_div (Fin (50 * pi)) (Fin 180) = Fin (50 * pi / 180)"
    using p by (simp add: js_num_moderate)
  have c: "js_div (Fin (50 * pi / 180)) (Fin 2) = Fin (5 * pi / 36)"
    using p by (simp add: js_num_moderate)
  have d: "js_num (tan (5 * pi / 36)) = Fin (tan (5 * pi / 36))"
    by (rule js_num_moderate) (use tan_half_fov_lower tan_half_fov_upper in simp_all)
  show ?thesis
    unfolding a b c Math_tan.simps d ..
qed


lemma square_in_range:
  assumes "1 / 2 ^ 500 \<le> (s::real)" and "s \<le> 2 ^ 500"
  shows "1 / 2 ^ 1000 \<le> s * s \<and> s * s \<le> 2 ^ 1000"
proof
  have pos: "(0::real) \<le> 1 / 2 ^ 500" by simp
  have "(1 / 2 ^ 500) * (1 / 2 ^ 500) \<le> s * s"
    using assms(1) pos by (intro mult_mono) simp_all
  moreover have "(1 / 2 ^ 500) * (1 / 2 ^ 500) = (1::real) / 2 ^ 1000"
    by simp
  ultimately show "1 / 2 ^ 1000 \<le> s * s" by simp
  have s0: "0 \<le> s" using assms(1) pos by linarith
  have "s * s \<le> 2 ^ 500 * 2 ^ 500"
    using assms(2) s0 by (intro mult_mono) simp_all
  moreover have "(2::real) ^ 500 * 2 ^ 500 = 2 ^ 1000"
    by simp
  ultimately show "s * s \<le> 2 ^ 1000" by simp
qed

lemma effectiveSize_in_range:
  assumes "1 / 2 ^ 500 \<le> sx" and "sx \<le> 2 ^ 500"
    and "1 / 2 ^ 500 \<le> sy" and "sy \<le> 2 ^ 500"
    and "1 / 2 ^ 500 \<le> sz" and "sz \<le> 2 ^ 500"
  shows "Math_max
           (Math_sqrt (js_add (js_add (js_mul (Fin sx) (Fin sx)) (js_mul (Fin sy) (Fin sy)))
                              (js_mul (Fin sz) (Fin sz))))
           (Math_max (Math_max (Fin sx) (Fin sy)) (Fin sz))
         = Fin (spec_effectiveSize sx sy sz)"
    and "1 / 2 ^ 500 \<le> spec_effectiveSize sx sy sz"
    and "spec_effectiveSize sx sy sz \<le> 2 ^ 501"
proof -
  define S where "S = sx * sx + sy * sy + sz * sz"
  note qx = square_in_range [OF assms(1,2)]
  note qy = square_in_range [OF assms(3,4)]
  note qz = square_in_range [OF assms(5,6)]
  have low: "(1::real) / 2 ^ 1002 \<le> 1 / 2 ^ 1000" "(0::real) < 1 / 2 ^ 1000" by simp_all
  have hi2: "(2::real) ^ 1000 + 2 ^ 1000 = 2 ^ 1001" by simp
  have hi3: "(2::real) ^ 1000 + 2 ^ 1000 + 2 ^ 1000 \<le> 2 ^ 1002" by simp
  have up: "(2::real) ^ 1000 \<le> 2 ^ 1002" "(2::real) ^ 1001 \<le> 2 ^ 1002" by simp_all
  have mx: "js_mul (Fin sx) (Fin sx) = Fin (sx * sx)"
    unfolding js_mul.simps using qx low up by (intro js_num_between) linarith+
  have my: "js_mul (Fin sy) (Fin sy) = Fin (sy * sy)"
    unfolding js_mul.simps using qy low up by (intro js_num_between) linarith+
  have mz: "js_mul (Fin sz) (Fin sz) = Fin (sz * sz)"
    unfolding js_mul.simps using qz low up by (intro js_num_between) linarith+
  have a1: "js_add (Fin (sx * sx)) (Fin (sy * sy)) = Fin (sx * sx + sy * sy)"
    unfolding js_add.simps using qx qy low hi2 up by (intro js_num_between) linarith+
  have a2: "js_add (Fin (sx * sx + sy * sy)) (Fin (sz * sz)) = Fin S"
    unfolding js_add.simps S_def using qx qy qz low hi3 by (intro js_num_between) linarith+
  have Slo: "sx * sx \<le> S"
    unfolding S_def using qy qz by (simp add: add_nonneg_nonneg)
  have Shi: "S \<le> 2 ^ 1002"
    unfolding S_def using qx qy qz hi3 by linarith
  have sx0: "0 \<le> sx" using assms(1) by (rule order_trans [rotated]) simp
  have "sqrt (sx * sx) \<le> sqrt S"
    using Slo by (rule real_sqrt_le_mono)
  then have Dlo: "sx \<le> sqrt S"
    using sx0 by simp
  have "sqrt S \<le> sqrt (2 ^ 1002)"
    using Shi by (rule real_sqrt_le_mono)
  moreover have "sqrt (2 ^ 1002) = (2::real) ^ 501"
    by (rule real_sqrt_unique) simp_all
  ultimately have Dhi: "sqrt S \<le> 2 ^ 501" by simp
  have S0: "\<not> S < 0"
    using Slo qx low by simp
  have "(1::real) / 2 ^ 1002 \<le> 1 / 2 ^ 500" "(2::real) ^ 501 \<le> 2 ^ 1002" by simp_all
  with Dlo Dhi assms(1) have sq: "js_num (sqrt S) = Fin (sqrt S)"
    by (intro js_num_between) linarith+
  have e: "spec_effectiveSize sx sy sz = max (sqrt S) (max (max sx sy) sz)"
    by (simp add: spec_effectiveSize_def S_def)
  show "Math_max
           (Math_sqrt (js_add (js_add (js_mul (Fin sx) (Fin sx)) (js_mul (Fin sy) (Fin sy)))
                              (js_mul (Fin sz) (Fin sz))))
           (Math_max (Math_max (Fin sx) (Fin sy)) (Fin sz))
         = Fin (spec_effectiveSize sx sy sz)"
    unfolding mx my mz a1 a2 e using S0 sq by simp
  show "1 / 2 ^ 500 \<le> spec_effectiveSize sx sy sz"
    unfolding e using Dlo assms(1) by (simp add: le_max_iff_disj)
  have "(2::real) ^ 500 \<le> 2 ^ 501" by simp
  with assms(2,4,6) Dhi show "spec_effectiveSize sx sy sz \<le> 2 ^ 501"
    unfolding e by simp
qed


lemma js_num_near_one:
  assumes "1 / 2 \<le> x" and "x \<le> 4"
  shows "js_num x = Fin x"
proof (rule js_num_between)
  have "(1::real) / 2 ^ 1002 \<le> 1 / 2" by simp
  with assms(1) show "1 / 2 ^ 1002 \<le> x" by linarith
  have "(4::real) \<le> 2 ^ 1002" by simp
  with assms(2) show "x \<le> 2 ^ 1002" by linarith
qed

lemma scale_in_range:
  assumes "1 / 2 ^ 500 \<le> e" and "e \<le> 2 ^ 501"
  shows "js_div (Fin 1.7) (Fin e) = Fin (1.7 / e)"
    and "js_mul (Fin e) (Fin (1.7 / e)) = Fin 1.7"
proof -
  have e0: "0 < e"
    using assms(1) by (rule less_le_trans [rotated]) simp
  have "1.7 / 2 ^ 501 \<le> 1.7 / e"
    using assms(2) e0 by (intro divide_left_mono) simp_all
  moreover have "(1::real) / 2 ^ 1002 \<le> 1.7 / 2 ^ 501"
    by simp
  ultimately have lo: "1 / 2 ^ 1002 \<le> 1.7 / e" by linarith
  have "1.7 / e \<le> 1.7 / (1 / 2 ^ 500)"
    using assms(1) by (intro divide_left_mono) simp_all
  moreover have "1.7 / (1 / 2 ^ 500) \<le> (2::real) ^ 1002"
    by simp
  ultimately have hi: "1.7 / e \<le> 2 ^ 1002" by linarith
  have q: "js_num (1.7 / e) = Fin (1.7 / e)"
    using lo hi by (rule js_num_between)
  show "js_div (Fin 1.7) (Fin e) = Fin (1.7 / e)"
    using e0 q by simp
  have eq: "e * (1.7 / e) = 1.7"
    using e0 by simp
  show "js_mul (Fin e) (Fin (1.7 / e)) = Fin 1.7"
    unfolding js_mul.simps eq by (rule js_num_near_one) simp_all
qed

lemma distance_in_range:
  assumes "1 \<le> a"
  shows "Math_max
           (js_mul
             (Math_max
               (js_div (Fin 1.7) (js_mul (Fin 2) (Fin (tan (5 * pi / 36)))))
               (js_div (Fin 1.7) (js_mul (js_mul (Fin 2) (Fin (tan (5 * pi / 36)))) (Fin a))))
             (Fin 1.1))
           (Fin 3.0) = Fin 3"
proof -
  define T where "T = tan (5 * pi / 36 :: real)"
  have T0: "2 / 5 < T" and T1: "T < 1"
    unfolding T_def by (rule tan_half_fov_lower, rule tan_half_fov_upper)
  have t2: "js_mul (Fin 2) (Fin T) = Fin (2 * T)"
    unfolding js_mul.simps by (rule js_num_near_one) (use T0 T1 in simp_all)
  have hlo: "17 / 20 \<le> 1.7 / (2 * T)"
    using T0 T1 by (simp add: field_simps)
  have hhi: "1.7 / (2 * T) \<le> 17 / 8"
    using T0 by (simp add: field_simps)
  have dh: "js_div (Fin 1.7) (Fin (2 * T)) = Fin (1.7 / (2 * T))"
  proof -
    have "js_num (1.7 / (2 * T)) = Fin (1.7 / (2 * T))"
      by (rule js_num_near_one) (use hlo hhi in linarith)+
    then show ?thesis using T0 by simp
  qed
  have dw: "\<exists>w. js_div (Fin 1.7) (js_mul (Fin (2 * T)) (Fin a)) = Fin w
              \<and> 0 \<le> w \<and> w \<le> 1.7 / (2 * T)"
  proof (cases "js_num (2 * T * a)")
    case (Fin p)
    have big: "4 / 5 \<le> 2 * T * a"
    proof -
      have "4 / 5 * 1 \<le> 2 * T * a"
        using T0 assms by (intro mult_mono) simp_all
      then show ?thesis by simp
    qed
    then have "\<not> \<bar>2 * T * a\<bar> \<le> 1 / 2 ^ 1075"
      by (simp add: abs_if not_le)
    with Fin have p: "p = 2 * T * a"
      unfolding js_num_def by (simp split: if_splits)
    have q0: "0 \<le> 1.7 / (2 * T * a)"
      using big by simp
    have q1: "1.7 / (2 * T * a) \<le> 1.7 / (2 * T)"
      using T0 assms by (simp add: field_simps)
    have "1.7 / (2 * T * a) \<le> 2 ^ 1002"
      using q1 hhi by (rule order_trans [OF order_trans]) simp
    with q0 obtain w where w: "js_num (1.7 / (2 * T * a)) = Fin w" "0 \<le> w"
        "w \<le> 1.7 / (2 * T * a)"
      using js_num_nonneg by blast
    have "2 * T * a \<noteq> 0" using big by auto
    with Fin p w(1) have "js_div (Fin 1.7) (js_mul (Fin (2 * T)) (Fin a)) = Fin w"
      by simp
    with w q1 show ?thesis by auto
  next
    case PInf
    then have "js_div (Fin 1.7) (js_mul (Fin (2 * T)) (Fin a)) = Fin 0"
      by simp
    moreover have "(0::real) \<le> 1.7 / (2 * T)"
      using hlo by linarith
    ultimately show ?thesis by blast
  next
    case NInf
    have "0 \<le> 2 * T * a" using T0 assms by simp
    with NInf show ?thesis
      unfolding js_num_def by (simp split: if_splits)
  next
    case NaN
    then show ?thesis
      unfolding js_num_def by (simp split: if_splits)
  qed
  then obtain w where w: "js_div (Fin 1.7) (js_mul (Fin (2 * T)) (Fin a)) = Fin w"
      "0 \<le> w" "w \<le> 1.7 / (2 * T)"
    by blast
  have m: "max (1.7 / (2 * T)) w = 1.7 / (2 * T)"
    using w(3) by (simp add: max_def)
  define h where "h = 1.7 / (2 * T)"
  have h: "17 / 20 \<le> h" "h \<le> 17 / 8"
    using hlo hhi by (simp_all only: h_def)
  have "1 / 2 \<le> h * 1.1" "h * 1.1 \<le> 4"
    using h by simp_all
  then have "js_mul (Fin h) (Fin 1.1) = Fin (h * 1.1)"
    unfolding js_mul.simps by (rule js_num_near_one)
  then have b: "js_mul (Fin (1.7 / (2 * T))) (Fin 1.1) = Fin (1.7 / (2 * T) * 1.1)"
    by (simp only: h_def)
  have "max (h * 1.1) 3.0 = (3::real)"
    using h by (simp add: max_def)
  then have f: "max (1.7 / (2 * T) * 1.1) 3.0 = (3::real)"
    by (simp only: h_def)
  show ?thesis
    unfolding T_def [symmetric] t2 dh w(1) Math_max.simps m b f ..
qed


lemma calculateModelTransform_in_range:
  assumes size: "getSize (setFromObject model) = (Fin sx, Fin sy, Fin sz)"
    and x: "1 / 2 ^ 500 \<le> sx" "sx \<le> 2 ^ 500"
    and y: "1 / 2 ^ 500 \<le> sy" "sy \<le> 2 ^ 500"
    and z: "1 / 2 ^ 500 \<le> sz" "sz \<le> 2 ^ 500"
  shows "t_scale (calculateModelTransform model aspectRatio) = Fin (spec_scale sx sy sz)"
    and "1 \<le> a \<Longrightarrow> t_cameraDistance (calculateModelTransform model (Fin a)) = Fin 3"
proof -
  note e = effectiveSize_in_range [OF x y z]
  note s = scale_in_range [OF e(2,3)]
  have sc: "spec_scale sx sy sz = 1.7 / spec_effectiveSize sx sy sz"
    by (simp add: spec_scale_def)
  show "t_scale (calculateModelTransform model aspectRatio) = Fin (spec_scale sx sy sz)"
    unfolding calculateModelTransform_def Let_def size prod.case e(1) targetSize_value s sc
    by simp
  assume a: "1 \<le> a"
  show "t_cameraDistance (calculateModelTransform model (Fin a)) = Fin 3"
    unfolding calculateModelTransform_def Let_def size prod.case e(1) targetSize_value s
      tan_half_fov
    by (simp only: transform.simps distance_in_range [OF a])
qed

lemma box_model_size: "getSize (setFromObject box_model) = (Fin 1, Fin 2, Fin 2)"
  by (simp add: setFromObject_def box_model_def applyMatrixWorld_def makeEmpty_def
      expandByPoint_def getSize_def js_sub_def js_num_0 js_num_moderate)

lemma box_model_transform:
  "t_scale (calculateModelTransform box_model (Fin (16 / 9))) = Fin (spec_scale 1 2 2)
   \<and> t_cameraDistance (calculateModelTransform box_model (Fin (16 / 9))) = Fin 3"
  using calculateModelTransform_in_range(1) [OF box_model_size, of "Fin (16 / 9)"]
    calculateModelTransform_in_range(2) [OF box_model_size, of "16 / 9"]
  by simp

section \<open>createSpriteStrip: the layout of the strip\<close>

text \<open>
  What the handlers compute: with \<open>k\<close> images counted so far, the promise resolves
  exactly when the remaining number of images load, and the canvas then holds the draw
  calls of the first of them in loading order.
\<close>

lemma onloadEvents_char:
  "k < length frames \<Longrightarrow>
   onloadEvents frames dims evs c k =
     (let v = filter (\<lambda>i. i < length frames) evs in
      if length frames - k \<le> length v
      then Resolved (c\<lparr>draws := draws c @ map (slot frames dims) (take (length frames - k) v)\<rparr>)
      else Pending)"
proof (induction evs arbitrary: c k)
  case Nil
  then show ?case by simp
next
  case (Cons i evs)
  show ?case
  proof (cases "i < length frames")
    case False
    with Cons show ?thesis by simp
  next
    case True
    show ?thesis
    proof (cases "Suc k = length frames")
      case True
      then have "length frames - k = Suc 0" by simp
      with True \<open>i < length frames\<close> show ?thesis
        by (simp add: Let_def drawImage_def slot_def)
    next
      case False
      with Cons.prems have k': "Suc k < length frames" by simp
      have d: "length frames - k = Suc (length frames - Suc k)"
        using k' by simp
      show ?thesis
        using True False Cons.IH [OF k']
        by (simp add: Let_def drawImage_def slot_def d)
    qed
  qed
qed

lemma createSpriteStrip_empty: "createSpriteStrip [] dims evs = Pending"
  by (induction evs) (simp_all add: createSpriteStrip_def)

lemma createSpriteStrip_char:
  "frames \<noteq> [] \<Longrightarrow>
   createSpriteStrip frames dims evs =
     (let v = filter (\<lambda>i. i < length frames) evs in
      if length frames \<le> length v
      then Resolved \<lparr>canvas_width = width dims * length frames, canvas_height = height dims,
             draws = map (slot frames dims) (take (length frames) v)\<rparr>
      else Pending)"
  unfolding createSpriteStrip_def
  by (simp add: onloadEvents_char Let_def)

lemma createSpriteStrip_not_Rejected: "createSpriteStrip frames dims evs \<noteq> Rejected e"
  by (cases "frames = []") (simp_all add: createSpriteStrip_empty createSpriteStrip_char Let_def)

lemma full_prefix:
  assumes "distinct us" "\<forall>i\<in>set us. i < n" "length us = n"
  shows "set us = {..<n}"
proof -
  have "set us \<subseteq> {..<n}" using assms(2) by auto
  moreover have "card (set us) = card {..<n}"
    using assms(1,3) by (simp add: distinct_card)
  ultimately show ?thesis
    by (simp add: card_subset_eq)
qed

lemma covers_slot:
  assumes "0 < width dims"
  shows "covers (slot frames dims i) x y \<longleftrightarrow> i = x div width dims \<and> y < height dims"
proof -
  have "(i * width dims \<le> x \<and> x < i * width dims + width dims) \<longleftrightarrow> i = x div width dims"
    using assms
    by (metis add.commute div_nat_eqI mult.commute mult_Suc_right dividend_less_times_div less_mult_imp_div_less div_times_less_eq_dividend  times_div_less_eq_dividend)
  then show ?thesis
    by (auto simp: covers_def slot_def)
qed

text \<open>
  C1. When \<open>createSpriteStrip\<close> resolves on frames that all have the size
  \<open>width\<close> by \<open>height\<close> (each image loading once), there is at least one frame, the
  strip is \<open>width * length frames\<close> wide and \<open>height\<close> high, frame \<open>i\<close> is drawn at
  offset \<open>i * width\<close> from the top edge over the full height, every frame is drawn in
  a rectangle of its own size (no scaling), and every pixel of the strip lies in exactly
  one drawn rectangle (no gaps, no overlap).
\<close>

theorem createSpriteStrip_layout:
  assumes res: "createSpriteStrip frames dims arrivals = Resolved strip"
    and dist: "distinct arrivals"
    and same: "\<forall>f\<in>set frames. img_width f = width dims \<and> img_height f = height dims"
  shows "1 \<le> length frames
    \<and> canvas_width strip = width dims * length frames
    \<and> canvas_height strip = height dims
    \<and> length (draws strip) = length frames
    \<and> (\<forall>i<length frames. slot frames dims i \<in> set (draws strip))
    \<and> (\<forall>d\<in>set (draws strip).
          dWidth d = img_width (drawn d) \<and> dHeight d = img_height (drawn d))
    \<and> (\<forall>x<canvas_width strip. \<forall>y<canvas_height strip.
          \<exists>!k. k < length (draws strip) \<and> covers (draws strip ! k) x y)"
proof -
  define n where "n = length frames"
  define v where "v = filter (\<lambda>i. i < n) arrivals"
  define us where "us = take n v"
  have ne: "frames \<noteq> []"
    using res by (auto simp: createSpriteStrip_empty)
  have enough: "n \<le> length v"
    using res ne unfolding n_def v_def
    by (simp add: createSpriteStrip_char Let_def split: if_splits)
  have strip: "strip = \<lparr>canvas_width = width dims * n, canvas_height = height dims,
                         draws = map (slot frames dims) us\<rparr>"
    using res ne enough unfolding n_def v_def us_def
    by (simp add: createSpriteStrip_char Let_def)
  have len: "length us = n"
    using enough by (simp add: us_def)
  have "distinct v" using dist by (simp add: v_def)
  then have dus: "distinct us" by (simp add: us_def)
  have "\<forall>i\<in>set us. i < n"
    using set_take_subset [of n v] by (auto simp: us_def v_def)
  with dus len have all: "set us = {..<n}"
    by (intro full_prefix)
  have c3: "\<forall>i<length frames. slot frames dims i \<in> set (draws strip)"
    using all by (auto simp: strip n_def)
  have c4: "\<forall>d\<in>set (draws strip).
          dWidth d = img_width (drawn d) \<and> dHeight d = img_height (drawn d)"
  proof
    fix d assume "d \<in> set (draws strip)"
    then obtain j where j: "j \<in> set us" "d = slot frames dims j"
      by (auto simp: strip)
    then have "frames ! j \<in> set frames"
      using all by (simp add: n_def)
    with same j(2) show "dWidth d = img_width (drawn d) \<and> dHeight d = img_height (drawn d)"
      by (simp add: slot_def)
  qed
  have c5: "\<forall>x<canvas_width strip. \<forall>y<canvas_height strip.
          \<exists>!k. k < length (draws strip) \<and> covers (draws strip ! k) x y"
  proof (intro allI impI)
    fix x y assume x: "x < canvas_width strip" and y: "y < canvas_height strip"
    from x have w: "0 < width dims"
      by (cases "width dims = 0") (simp_all add: strip)
    from x have "x div width dims < n"
      using w by (simp add: strip less_mult_imp_div_less mult.commute)
    then have "x div width dims \<in> set us"
      using all by simp
    then obtain k where k: "k < length us" "us ! k = x div width dims"
      by (auto simp: in_set_conv_nth)
    show "\<exists>!k. k < length (draws strip) \<and> covers (draws strip ! k) x y"
    proof (rule ex1I [of _ k])
      show "k < length (draws strip) \<and> covers (draws strip ! k) x y"
        using k y w by (simp add: strip covers_slot)
    next
      fix k' assume a: "k' < length (draws strip) \<and> covers (draws strip ! k') x y"
      then have kl: "k' < length us"
        by (simp add: strip)
      with a have "covers (slot frames dims (us ! k')) x y"
        by (simp add: strip)
      then have "us ! k' = x div width dims"
        using w by (simp add: covers_slot)
      with k kl dus show "k' = k"
        by (metis nth_eq_iff_index_eq)
    qed
  qed
  have c0: "1 \<le> length frames"
    using ne by (simp add: Suc_le_eq)
  have c1: "canvas_width strip = width dims * length frames"
    by (simp add: strip n_def)
  have c2: "canvas_height strip = height dims"
    by (simp add: strip)
  have cl: "length (draws strip) = length frames"
    by (simp add: strip len n_def)
  show ?thesis
    by (intro conjI c0 c1 c2 cl c3 c4 c5)
qed

theorem createSpriteStrip_layout_witness:
  "createSpriteStrip two_frames \<lparr>width = 2, height = 1\<rparr> [1, 0] =
     Resolved \<lparr>canvas_width = 4, canvas_height = 1,
       draws = [\<lparr>drawn = example_frame 2 1 pi, dx = 2, dy = 0, dWidth = 2, dHeight = 1\<rparr>,
                \<lparr>drawn = example_frame 2 1 0, dx = 0, dy = 0, dWidth = 2, dHeight = 1\<rparr>]\<rparr>
   \<and> slot two_frames \<lparr>width = 2, height = 1\<rparr> 1
       \<in> set [\<lparr>drawn = example_frame 2 1 pi, dx = 2, dy = 0, dWidth = 2, dHeight = 1\<rparr>,
                \<lparr>drawn = example_frame 2 1 0, dx = 0, dy = 0, dWidth = 2, dHeight = 1\<rparr>]"
proof -
  have r: "createSpriteStrip two_frames \<lparr>width = 2, height = 1\<rparr> [1, 0] =
     Resolved \<lparr>canvas_width = 4, canvas_height = 1,
       draws = [\<lparr>drawn = example_frame 2 1 pi, dx = 2, dy = 0, dWidth = 2, dHeight = 1\<rparr>,
                \<lparr>drawn = example_frame 2 1 0, dx = 0, dy = 0, dWidth = 2, dHeight = 1\<rparr>]\<rparr>"
    by (simp add: createSpriteStrip_def two_frames_def drawImage_def)
  have d: "distinct [1, 0 :: nat]" by simp
  have s: "\<forall>f\<in>set two_frames.
      img_width f = width \<lparr>width = 2, height = 1\<rparr> \<and> img_height f = height \<lparr>width = 2, height = 1\<rparr>"
    by (simp add: two_frames_def example_frame_def)
  from createSpriteStrip_layout [OF r d s] have
    "\<forall>i<length two_frames. slot two_frames \<lparr>width = 2, height = 1\<rparr> i
       \<in> set [\<lparr>drawn = example_frame 2 1 pi, dx = 2, dy = 0, dWidth = 2, dHeight = 1\<rparr>,
                \<lparr>drawn = example_frame 2 1 0, dx = 0, dy = 0, dWidth = 2, dHeight = 1\<rparr>]"
    by simp
  then have "slot two_frames \<lparr>width = 2, height = 1\<rparr> 1
       \<in> set [\<lparr>drawn = example_frame 2 1 pi, dx = 2, dy = 0, dWidth = 2, dHeight = 1\<rparr>,
                \<lparr>drawn = example_frame 2 1 0, dx = 0, dy = 0, dWidth = 2, dHeight = 1\<rparr>]"
    by (simp add: two_frames_def)
  with r show ?thesis by simp
qed

text \<open>
  When the promise resolves, and when: the canvas it resolves with, and the number of
  load events of frames that it takes.
\<close>

lemma createSpriteStrip_Resolved:
  assumes "createSpriteStrip frames dims evs = Resolved strip"
  shows "frames \<noteq> []
    \<and> length frames \<le> length (filter (\<lambda>i. i < length frames) evs)
    \<and> strip = \<lparr>canvas_width = width dims * length frames, canvas_height = height dims,
         draws = map (slot frames dims)
                   (take (length frames) (filter (\<lambda>i. i < length frames) evs))\<rparr>"
proof -
  have ne: "frames \<noteq> []"
    using assms by (auto simp: createSpriteStrip_empty)
  with assms show ?thesis
    by (simp add: createSpriteStrip_char Let_def split: if_splits)
qed

lemma all_loaded_iff:
  assumes "distinct evs"
  shows "n \<le> length (filter (\<lambda>i. i < n) evs) \<longleftrightarrow> {..<n} \<subseteq> set evs"
proof
  let ?v = "filter (\<lambda>i. i < n) evs"
  assume le: "n \<le> length ?v"
  have "distinct ?v" using assms by simp
  then have "card (set ?v) = length ?v" by (rule distinct_card)
  with le have "card {..<n} \<le> card (set ?v)" by simp
  moreover have "set ?v \<subseteq> {..<n}" by auto
  ultimately have "set ?v = {..<n}"
    by (intro card_seteq) simp_all
  then show "{..<n} \<subseteq> set evs" by auto
next
  let ?v = "filter (\<lambda>i. i < n) evs"
  assume "{..<n} \<subseteq> set evs"
  then have "{..<n} \<subseteq> set ?v" by auto
  then have "card {..<n} \<le> card (set ?v)"
    by (intro card_mono) simp_all
  also have "\<dots> \<le> length ?v"
    by (rule card_length)
  finally show "n \<le> length ?v" by simp
qed

lemma all_loaded_enough:
  assumes "{..<n} \<subseteq> set evs"
  shows "n \<le> length (filter (\<lambda>i. i < n) evs)"
proof -
  let ?v = "filter (\<lambda>i. i < n) evs"
  from assms have "{..<n} \<subseteq> set ?v" by auto
  then have "card {..<n} \<le> card (set ?v)"
    by (intro card_mono) simp_all
  also have "\<dots> \<le> length ?v"
    by (rule card_length)
  finally show ?thesis by simp
qed

lemma createSpriteStrip_resolves_iff:
  assumes "frames \<noteq> []"
  shows "(\<exists>strip. createSpriteStrip frames dims evs = Resolved strip)
     \<longleftrightarrow> length frames \<le> length (filter (\<lambda>i. i < length frames) evs)"
  using assms by (simp add: createSpriteStrip_char Let_def)

text \<open>
  C8, as the code has it. \<open>createSpriteStrip\<close> compares no sizes and never rejects.
  Without frames it stays pending. With frames it resolves once every frame has loaded,
  and, each image loading once, only then; whether it resolves does not depend on the
  frames but only on their number. The strip it resolves with is
  \<open>width * length frames\<close> wide and \<open>height\<close> high, holds one draw call for each
  frame, every one into a rectangle of the expected size \<open>width\<close> by \<open>height\<close>
  whatever the size of the frame drawn, and frame \<open>i\<close> is drawn at offset
  \<open>i * width\<close>.
\<close>

theorem createSpriteStrip_never_rejects:
  "createSpriteStrip frames dims arrivals \<noteq> Rejected e
   \<and> (frames = [] \<longrightarrow> createSpriteStrip frames dims arrivals = Pending)
   \<and> (frames \<noteq> [] \<and> {..<length frames} \<subseteq> set arrivals \<longrightarrow>
        (\<exists>strip. createSpriteStrip frames dims arrivals = Resolved strip))
   \<and> (frames \<noteq> [] \<and> distinct arrivals \<longrightarrow>
        ((\<exists>strip. createSpriteStrip frames dims arrivals = Resolved strip)
           \<longleftrightarrow> {..<length frames} \<subseteq> set arrivals))
   \<and> (length others = length frames \<longrightarrow>
        ((\<exists>strip. createSpriteStrip others dims arrivals = Resolved strip)
           \<longleftrightarrow> (\<exists>strip. createSpriteStrip frames dims arrivals = Resolved strip)))
   \<and> (\<forall>strip. createSpriteStrip frames dims arrivals = Resolved strip \<longrightarrow>
        canvas_width strip = width dims * length frames
        \<and> canvas_height strip = height dims
        \<and> length (draws strip) = length frames
        \<and> (\<forall>d\<in>set (draws strip). dWidth d = width dims \<and> dHeight d = height dims)
        \<and> (distinct arrivals \<longrightarrow>
             (\<forall>i<length frames. slot frames dims i \<in> set (draws strip))))"
proof -
  have c0: "createSpriteStrip frames dims arrivals \<noteq> Rejected e"
    by (rule createSpriteStrip_not_Rejected)
  have c1: "frames = [] \<longrightarrow> createSpriteStrip frames dims arrivals = Pending"
    by (simp add: createSpriteStrip_empty)
  have c2: "frames \<noteq> [] \<and> {..<length frames} \<subseteq> set arrivals \<longrightarrow>
        (\<exists>strip. createSpriteStrip frames dims arrivals = Resolved strip)"
    by (auto simp: createSpriteStrip_resolves_iff all_loaded_enough)
  have c3: "frames \<noteq> [] \<and> distinct arrivals \<longrightarrow>
        ((\<exists>strip. createSpriteStrip frames dims arrivals = Resolved strip)
           \<longleftrightarrow> {..<length frames} \<subseteq> set arrivals)"
    by (auto simp: createSpriteStrip_resolves_iff all_loaded_iff)
  have c4: "length others = length frames \<longrightarrow>
        ((\<exists>strip. createSpriteStrip others dims arrivals = Resolved strip)
           \<longleftrightarrow> (\<exists>strip. createSpriteStrip frames dims arrivals = Resolved strip))"
  proof
    assume l: "length others = length frames"
    show "(\<exists>strip. createSpriteStrip others dims arrivals = Resolved strip)
           \<longleftrightarrow> (\<exists>strip. createSpriteStrip frames dims arrivals = Resolved strip)"
    proof (cases "frames = []")
      case True
      with l show ?thesis by (simp add: createSpriteStrip_empty)
    next
      case False
      with l have "others \<noteq> []" by auto
      then have "(\<exists>strip. createSpriteStrip others dims arrivals = Resolved strip)
           \<longleftrightarrow> length others \<le> length (filter (\<lambda>i. i < length others) arrivals)"
        by (rule createSpriteStrip_resolves_iff)
      moreover have "(\<exists>strip. createSpriteStrip frames dims arrivals = Resolved strip)
           \<longleftrightarrow> length frames \<le> length (filter (\<lambda>i. i < length frames) arrivals)"
        using False by (rule createSpriteStrip_resolves_iff)
      ultimately show ?thesis
        using l by simp
    qed
  qed
  have c5: "\<forall>strip. createSpriteStrip frames dims arrivals = Resolved strip \<longrightarrow>
        canvas_width strip = width dims * length frames
        \<and> canvas_height strip = height dims
        \<and> length (draws strip) = length frames
        \<and> (\<forall>d\<in>set (draws strip). dWidth d = width dims \<and> dHeight d = height dims)
        \<and> (distinct arrivals \<longrightarrow>
             (\<forall>i<length frames. slot frames dims i \<in> set (draws strip)))"
  proof (intro allI impI)
    fix strip assume r: "createSpriteStrip frames dims arrivals = Resolved strip"
    define v where "v = filter (\<lambda>i. i < length frames) arrivals"
    define us where "us = take (length frames) v"
    from createSpriteStrip_Resolved [OF r]
    have enough: "length frames \<le> length v"
      and strip: "strip = \<lparr>canvas_width = width dims * length frames,
                     canvas_height = height dims, draws = map (slot frames dims) us\<rparr>"
      by (simp_all add: v_def us_def)
    have len: "length us = length frames"
      using enough by (simp add: us_def)
    have d1: "canvas_width strip = width dims * length frames"
      by (simp add: strip)
    have d2: "canvas_height strip = height dims"
      by (simp add: strip)
    have d3: "length (draws strip) = length frames"
      by (simp add: strip len)
    have d4: "\<forall>d\<in>set (draws strip). dWidth d = width dims \<and> dHeight d = height dims"
      by (auto simp: strip slot_def)
    have d5: "distinct arrivals \<longrightarrow>
             (\<forall>i<length frames. slot frames dims i \<in> set (draws strip))"
    proof
      assume "distinct arrivals"
      then have "distinct v" by (simp add: v_def)
      then have dus: "distinct us" by (simp add: us_def)
      have "\<forall>i\<in>set us. i < length frames"
        using set_take_subset [of "length frames" v] by (auto simp: us_def v_def)
      with dus len have "set us = {..<length frames}"
        by (intro full_prefix)
      then show "\<forall>i<length frames. slot frames dims i \<in> set (draws strip)"
        by (auto simp: strip)
    qed
    show "canvas_width strip = width dims * length frames
        \<and> canvas_height strip = height dims
        \<and> length (draws strip) = length frames
        \<and> (\<forall>d\<in>set (draws strip). dWidth d = width dims \<and> dHeight d = height dims)
        \<and> (distinct arrivals \<longrightarrow>
             (\<forall>i<length frames. slot frames dims i \<in> set (draws strip)))"
      by (intro conjI d1 d2 d3 d4 d5)
  qed
  show ?thesis
    by (intro conjI c0 c1 c2 c3 c4 c5)
qed

theorem createSpriteStrip_never_rejects_witness:
  "createSpriteStrip [small_frame] \<lparr>width = 2, height = 2\<rparr> [0] =
     Resolved \<lparr>canvas_width = 2, canvas_height = 2,
       draws = [\<lparr>drawn = small_frame, dx = 0, dy = 0, dWidth = 2, dHeight = 2\<rparr>]\<rparr>
   \<and> slot [small_frame] \<lparr>width = 2, height = 2\<rparr> 0
       \<in> set [\<lparr>drawn = small_frame, dx = 0, dy = 0, dWidth = 2, dHeight = 2\<rparr>]
   \<and> \<not> {..<length two_frames} \<subseteq> set [1 :: nat]
   \<and> (\<nexists>strip. createSpriteStrip two_frames \<lparr>width = 2, height = 1\<rparr> [1] = Resolved strip)"
proof -
  have r: "createSpriteStrip [small_frame] \<lparr>width = 2, height = 2\<rparr> [0] =
     Resolved \<lparr>canvas_width = 2, canvas_height = 2,
       draws = [\<lparr>drawn = small_frame, dx = 0, dy = 0, dWidth = 2, dHeight = 2\<rparr>]\<rparr>"
    by (simp add: createSpriteStrip_def drawImage_def)
  have s: "slot [small_frame] \<lparr>width = 2, height = 2\<rparr> 0
       \<in> set [\<lparr>drawn = small_frame, dx = 0, dy = 0, dWidth = 2, dHeight = 2\<rparr>]"
    using createSpriteStrip_never_rejects
      [where frames = "[small_frame]" and dims = "\<lparr>width = 2, height = 2\<rparr>"
         and arrivals = "[0]" and others = "[small_frame]"] r
    by simp
  have n: "\<not> {..<length two_frames} \<subseteq> set [1 :: nat]"
    by (auto simp: two_frames_def)
  have ne: "two_frames \<noteq> []"
    by (simp add: two_frames_def)
  have p: "\<nexists>strip. createSpriteStrip two_frames \<lparr>width = 2, height = 1\<rparr> [1] = Resolved strip"
    using createSpriteStrip_never_rejects
      [where frames = two_frames and dims = "\<lparr>width = 2, height = 1\<rparr>"
         and arrivals = "[1]" and others = two_frames] n ne
    by simp
  from r s n p show ?thesis by (intro conjI)
qed

text \<open>
  C8 as stated fails: a frame of size 1 by 1 disagrees with the expected size 2 by 2, and
  the composition resolves with the frame drawn into a rectangle of size 2 by 2.
\<close>

theorem createSpriteStrip_mismatch_counterexample:
  "img_width small_frame \<noteq> width \<lparr>width = 2, height = 2\<rparr>
   \<and> createSpriteStrip [small_frame] \<lparr>width = 2, height = 2\<rparr> [0] =
     Resolved \<lparr>canvas_width = 2, canvas_height = 2,
       draws = [\<lparr>drawn = small_frame, dx = 0, dy = 0, dWidth = 2, dHeight = 2\<rparr>]\<rparr>"
  by (simp add: createSpriteStrip_def drawImage_def small_frame_def example_frame_def)

section \<open>loadModel: the order of the decoders\<close>

text \<open>
  C3, as the code has it. \<open>loadModel\<close> calls the decoders in the order GLTF, FBX, OBJ,
  none of them twice, and stops at the first that succeeds, whose model it resolves with.
  When all three fail it rejects with one fixed error, whose message names the three
  formats; the three failure reasons go to the console, and only in that case.
\<close>

theorem loadModel_first_success:
  "attempted (loadModel ld url) = fst (spec_firstSuccess ld url [GLTF, FBX, OBJ])
   \<and> distinct (attempted (loadModel ld url))
   \<and> settled (loadModel ld url) =
       (case snd (snd (spec_firstSuccess ld url [GLTF, FBX, OBJ])) of
          Some m \<Rightarrow> Resolved m
        | None \<Rightarrow> Rejected (Error ''Failed to load 3D model. Supported formats: GLTF, FBX, OBJ''))
   \<and> (snd (snd (spec_firstSuccess ld url [GLTF, FBX, OBJ])) = None) =
       (ConsoleError ''All model loaders failed:''
          (fst (snd (spec_firstSuccess ld url [GLTF, FBX, OBJ])))
        \<in> set (console (loadModel ld url)))"
  by (simp add: loadModel_def decoder_def split: sum.splits)

text \<open>
  C3 as stated fails: the error does not carry the reasons. Two runs in which every
  decoder fails, for different reasons, reject with the same error and differ only in
  what they write to the console.
\<close>

theorem loadModel_error_counterexample:
  "settled (loadModel (failing_loaders ''unexpected token'') ''blob:model'') =
     settled (loadModel (failing_loaders ''bad magic number'') ''blob:model'')
   \<and> console (loadModel (failing_loaders ''unexpected token'') ''blob:model'') \<noteq>
     console (loadModel (failing_loaders ''bad magic number'') ''blob:model'')"
  by (simp add: loadModel_def failing_loaders_def)

section \<open>generateFrames: the frames and their rotations\<close>

lemma renderFrame_rotation:
  "rotation (shot_model (img_shot (fst (snd (renderFrame n d a cd c i m))))) =
     (0, degrees (real i * (360 / real n)), 0)"
  by (simp add: renderFrame_def Let_def degrees_def)

lemma renderFrame_size:
  "img_width (fst (snd (renderFrame n d a cd c i m))) = width d
   \<and> img_height (fst (snd (renderFrame n d a cd c i m))) = height d"
  by (simp add: renderFrame_def Let_def)

lemma renderFrame_progress:
  "snd (snd (renderFrame n d a cd c i m)) = real i / real n"
  by (simp add: renderFrame_def Let_def)

lemma frameLoop_frames:
  assumes "\<And>i m. P i (fst (snd (renderFrame n d a cd c i m)))"
  shows "\<exists>F. fst (frameLoop n d a cd c is m fs rs) = fs @ F \<and> length F = length is
           \<and> (\<forall>j<length is. P (is ! j) (F ! j))"
proof (induction "is" arbitrary: m fs rs)
  case Nil
  then show ?case by simp
next
  case (Cons i "is")
  obtain m' img p where r: "renderFrame n d a cd c i m = (m', img, p)"
    by (cases "renderFrame n d a cd c i m") auto
  from Cons [of m' "fs @ [img]" "rs @ [p]"] obtain F where
    F: "fst (frameLoop n d a cd c is m' (fs @ [img]) (rs @ [p])) = (fs @ [img]) @ F"
       "length F = length is" "\<forall>j<length is. P (is ! j) (F ! j)"
    by blast
  have Pi: "P i img"
    using assms [of i m] r by simp
  have "\<forall>j<length (i # is). P ((i # is) ! j) ((img # F) ! j)"
    using Pi F(3) by (auto simp: nth_Cons split: nat.splits)
  with F(1,2) r show ?case
    by (intro exI [of _ "img # F"]) simp
qed

lemma frameLoop_progress:
  "snd (frameLoop n d a cd c is m fs rs) = rs @ map (\<lambda>i. real i / real n) is"
proof (induction "is" arbitrary: m fs rs)
  case Nil
  then show ?case by simp
next
  case (Cons i "is")
  obtain m' img p where r: "renderFrame n d a cd c i m = (m', img, p)"
    by (cases "renderFrame n d a cd c i m") auto
  with renderFrame_progress [of n d a cd c i m] have "p = real i / real n" by simp
  with Cons r show ?case by simp
qed

lemma generateFrames_progress:
  "snd (generateFrames model n d r) = map (\<lambda>i. real i / real n) [0..<n]"
  by (simp add: generateFrames_def Let_def frameLoop_progress)

lemma generateFrames_frames:
  assumes "\<And>i m a cd c. P i (fst (snd (renderFrame n d a cd c i m)))"
  shows "length (fst (generateFrames model n d r)) = n
    \<and> (\<forall>i<n. P i (fst (generateFrames model n d r) ! i))"
proof -
  obtain a cd c m where g: "generateFrames model n d r = frameLoop n d a cd c [0..<n] m [] []"
    by (simp add: generateFrames_def Let_def)
  from frameLoop_frames [of P n d a cd c "[0..<n]" m "[]" "[]"] assms
  obtain F where "fst (frameLoop n d a cd c [0..<n] m [] []) = F" "length F = n"
    "\<forall>j<n. P ([0..<n] ! j) (F ! j)"
    by auto
  with g show ?thesis by simp
qed

text \<open>Every frame has the size of the render canvas, as the compositor expects.\<close>

lemma generateFrames_sizes:
  "\<forall>i<n. img_width (fst (generateFrames model n d r) ! i) = width d
          \<and> img_height (fst (generateFrames model n d r) ! i) = height d"
  using generateFrames_frames
    [of "\<lambda>i img. img_width img = width d \<and> img_height img = height d" n d model r]
    renderFrame_size
  by simp

text \<open>
  C6. For a frame count of at least 1, \<open>generateFrames\<close> returns exactly that many
  frames; the frame at index \<open>i\<close> shows the model turned about the vertical axis only,
  by \<open>i * (360 / frameCount)\<close> degrees in radians; frame 0 is not turned, the angles
  grow strictly with the index, and every angle stays below 360 degrees.
\<close>

theorem generateFrames_rotations:
  assumes "1 \<le> frameCount"
  shows "length (fst (generateFrames model frameCount dims ratio)) = frameCount
    \<and> (\<forall>i<frameCount.
          rotation (shot_model (img_shot (fst (generateFrames model frameCount dims ratio) ! i)))
            = (0, degrees (real i * (360 / real frameCount)), 0))
    \<and> rotation (shot_model (img_shot (fst (generateFrames model frameCount dims ratio) ! 0)))
         = (0, 0, 0)
    \<and> (\<forall>i j. i < j \<and> j < frameCount \<longrightarrow>
          degrees (real i * (360 / real frameCount)) < degrees (real j * (360 / real frameCount)))
    \<and> (\<forall>i<frameCount. degrees (real i * (360 / real frameCount)) < degrees 360)"
proof -
  let ?P = "\<lambda>i img. rotation (shot_model (img_shot img))
                      = (0, degrees (real i * (360 / real frameCount)), 0)"
  have g: "length (fst (generateFrames model frameCount dims ratio)) = frameCount
    \<and> (\<forall>i<frameCount. ?P i (fst (generateFrames model frameCount dims ratio) ! i))"
    by (rule generateFrames_frames) (rule renderFrame_rotation)
  have n: "0 < real frameCount" using assms by simp
  have z: "rotation (shot_model (img_shot (fst (generateFrames model frameCount dims ratio) ! 0)))
         = (0, 0, 0)"
    using g assms by (auto simp: degrees_def)
  have inc: "\<forall>i j. i < j \<and> j < frameCount \<longrightarrow>
          degrees (real i * (360 / real frameCount)) < degrees (real j * (360 / real frameCount))"
    using n by (simp add: degrees_def field_simps)
  have lt: "\<forall>i<frameCount. degrees (real i * (360 / real frameCount)) < degrees 360"
    using n by (simp add: degrees_def field_simps)
  show ?thesis
    using g z inc lt by blast
qed

theorem generateFrames_rotations_witness:
  "length (fst (generateFrames box_model 2 \<lparr>width = 2, height = 1\<rparr> R1_1)) = 2
   \<and> rotation (shot_model (img_shot
        (fst (generateFrames box_model 2 \<lparr>width = 2, height = 1\<rparr> R1_1) ! 1)))
       = (0, degrees 180, 0)"
proof -
  have "(1::nat) \<le> 2" by simp
  from generateFrames_rotations [OF this, of box_model "\<lparr>width = 2, height = 1\<rparr>" R1_1]
  have l: "length (fst (generateFrames box_model 2 \<lparr>width = 2, height = 1\<rparr> R1_1)) = 2"
    and r: "\<forall>i<2. rotation (shot_model (img_shot
        (fst (generateFrames box_model 2 \<lparr>width = 2, height = 1\<rparr> R1_1) ! i)))
       = (0, degrees (real i * (360 / real (2::nat))), 0)"
    by blast+
  from r have "rotation (shot_model (img_shot
        (fst (generateFrames box_model 2 \<lparr>width = 2, height = 1\<rparr> R1_1) ! 1)))
       = (0, degrees (real (1::nat) * (360 / real (2::nat))), 0)"
    by simp
  with l show ?thesis by simp
qed

section \<open>generateSpriteStrip: progress and outcome\<close>

lemma interp_set:
  assumes "x \<in> set (map (\<lambda>p. 20 + p * 0.7) (map (\<lambda>i. real i / real n) [0..<n]))"
  shows "20 \<le> x \<and> x < 21"
proof -
  from assms obtain i where i: "i < n" "x = 20 + real i / real n * 0.7"
    by auto
  have "0 \<le> real i / real n" by simp
  moreover have "real i / real n < 1" using i(1) by simp
  ultimately show ?thesis using i(2) by simp
qed

lemma sorted_interp: "sorted (map (\<lambda>p. 20 + p * 0.7) (map (\<lambda>i. real i / real n) [0..<n]))"
  by (auto simp: sorted_iff_nth_mono intro!: divide_right_mono mult_right_mono simp del: upt_Suc)

lemma sorted_shown: "sorted (shown n)"
proof -
  let ?ps = "map (\<lambda>p. 20 + p * 0.7) (map (\<lambda>i. real i / real n) [0..<n])"
  have b: "\<forall>x\<in>set ?ps. 20 \<le> x \<and> x < 21"
    using interp_set by blast
  have "sorted ([0, 10, 20] @ ?ps @ [90])"
    unfolding sorted_append using b sorted_interp [of n]
    by (fastforce simp del: upt_Suc map_map)
  then show ?thesis by (simp only: shown_def)
qed

lemma shown_below_100: "x \<in> set (shown n) \<Longrightarrow> x \<le> 90"
proof -
  let ?ps = "map (\<lambda>p. 20 + p * 0.7) (map (\<lambda>i. real i / real n) [0..<n])"
  assume "x \<in> set (shown n)"
  then have "x \<in> {0, 10, 20, 90} \<or> x \<in> set ?ps"
    unfolding shown_def by (auto simp del: upt_Suc map_map)
  then show ?thesis
  proof
    assume "x \<in> {0, 10, 20, 90}"
    then show ?thesis by auto
  next
    assume "x \<in> set ?ps"
    from interp_set [OF this] show ?thesis by simp
  qed
qed

lemma sorted_shown_done: "sorted (shown n @ [100, 100])"
  unfolding sorted_append using sorted_shown [of n] shown_below_100 [of _ n]
  by fastforce

lemma shown_not_100: "100 \<notin> set (shown n)"
  using shown_below_100 [of 100 n] by auto

lemma generateFrames_length: "length (fst (generateFrames model n d r)) = n"
  using generateFrames_frames [of "\<lambda>i img. True" n d model r] by simp

lemma shown_generateFrames:
  "[0, 10, 20] @ map (\<lambda>p. 20 + p * 0.7) (snd (generateFrames model n d r)) @ [90] = shown n"
  by (simp only: shown_def generateFrames_progress)

lemma deliver_progress: "run_progress (deliver opts sh d) = sh"
  by (simp add: deliver_def split: option.splits promise.splits)

lemma deliver_Resolved: "run_outcome (deliver opts sh d) = Resolved x \<Longrightarrow> x = Some d"
  by (simp add: deliver_def split: option.splits promise.splits)

lemma deliver_no_hooks:
  "onGenerate opts = None \<Longrightarrow> onSubmit opts = None \<Longrightarrow>
   run_outcome (deliver opts sh d) = Resolved (Some d)"
  by (simp add: deliver_def)

lemma renderAndCompose_shape:
  "(run_progress (renderAndCompose env mf url n ratio dims model) = shown n
      \<and> (\<forall>x. run_outcome (renderAndCompose env mf url n ratio dims model) \<noteq> Resolved x))
   \<or> (\<exists>d. renderAndCompose env mf url n ratio dims model
            = deliver (options env) (shown n @ [100, 100]) d)"
proof -
  obtain frames reported where g: "generateFrames model n dims ratio = (frames, reported)"
    by (cases "generateFrames model n dims ratio") auto
  then have "reported = snd (generateFrames model n dims ratio)" by simp
  then have sh: "[0, 10, 20] @ map (\<lambda>p. 20 + p * 0.7) reported @ [90] = shown n"
    by (simp only: shown_generateFrames)
  show ?thesis
  proof (cases "createSpriteStrip frames dims (loadOrder env)")
    case (Resolved strip)
    then show ?thesis
      unfolding renderAndCompose_def g Let_def prod.case sh by auto
  next
    case (Rejected e)
    then show ?thesis
      unfolding renderAndCompose_def g Let_def prod.case sh by simp
  next
    case Pending
    then show ?thesis
      unfolding renderAndCompose_def g Let_def prod.case sh by simp
  qed
qed

lemma generateSpriteStrip_shape:
  "generateSpriteStrip env modelFile textureFile
      = \<lparr>run_progress = [], run_outcome = Resolved None\<rparr>
   \<or> (run_progress (generateSpriteStrip env modelFile textureFile) = [0, 10]
      \<and> (\<forall>x. run_outcome (generateSpriteStrip env modelFile textureFile) \<noteq> Resolved x))
   \<or> (run_progress (generateSpriteStrip env modelFile textureFile)
        = shown (effectiveFrameCount env)
      \<and> (\<forall>x. run_outcome (generateSpriteStrip env modelFile textureFile) \<noteq> Resolved x))
   \<or> (\<exists>d. generateSpriteStrip env modelFile textureFile
            = deliver (options env) (shown (effectiveFrameCount env) @ [100, 100]) d)"
proof (cases modelFile)
  case None
  then show ?thesis by (simp add: generateSpriteStrip_def)
next
  case (Some mf)
  let ?ratio = "case opt_ratio (options env) of None \<Rightarrow> R16_9 | Some r \<Rightarrow> r"
  let ?url = "createObjectURL env mf"
  show ?thesis
  proof (cases "settled (loadModel (modelLoaders env) ?url)")
    case (Rejected e)
    with Some show ?thesis by (simp add: generateSpriteStrip_def Let_def)
  next
    case Pending
    with Some show ?thesis by (simp add: generateSpriteStrip_def Let_def)
  next
    case (Resolved model)
    let ?tex = "case (case appliedTexture env of Some t \<Rightarrow> Some t | None \<Rightarrow> textureFile) of
                  None \<Rightarrow> (model, Resolved ())
                | Some t \<Rightarrow> applyTextureToModel (textureLoader env) model t"
    obtain model' pr where t: "?tex = (model', pr)"
      by (cases ?tex) auto
    show ?thesis
    proof (cases "pr = Pending")
      case True
      with Some Resolved t show ?thesis
        by (simp add: generateSpriteStrip_def Let_def)
    next
      case False
      with Some Resolved t have
        "generateSpriteStrip env modelFile textureFile =
           renderAndCompose env mf ?url (effectiveFrameCount env) ?ratio
             (getCanvasDimensions ?ratio) model'"
        by (cases pr) (simp_all add: generateSpriteStrip_def Let_def effectiveFrameCount_def)
      with renderAndCompose_shape show ?thesis by simp
    qed
  qed
qed

text \<open>The example run up to the hooks.\<close>

lemma example_run:
  "generateSpriteStrip (example_env submit) (Some model_file) None =
     deliver (options (example_env submit)) [0, 10, 20, 20, 90, 100, 100]
       \<lparr>spriteStripUrl =
          \<lparr>canvas_width = 1080, canvas_height = 1080,
           draws = [slot (fst (generateFrames box_model 1 (getCanvasDimensions R1_1) R1_1))
                      (getCanvasDimensions R1_1) 0]\<rparr>,
        modelUrl = ''blob:chair.glb'', data_frameCount = 1, data_ratio = R1_1,
        data_metadata = \<lparr>originalFileName = ''chair.glb'', fileSize = 1024,
          fileType = ''model/gltf-binary'', meta_width = 1080, meta_height = 1080\<rparr>\<rparr>"
proof -
  let ?g = "generateFrames box_model 1 (getCanvasDimensions R1_1) R1_1"
  have l: "length (fst ?g) = 1" by (rule generateFrames_length)
  then have ne: "fst ?g \<noteq> []" by auto
  have c: "createSpriteStrip (fst ?g) (getCanvasDimensions R1_1) [0] =
      Resolved \<lparr>canvas_width = 1080, canvas_height = 1080,
           draws = [slot (fst ?g) (getCanvasDimensions R1_1) 0]\<rparr>"
    using l ne by (simp add: createSpriteStrip_char Let_def)
  have sn: "snd ?g = [0]"
    by (simp add: generateFrames_progress)
  have "renderAndCompose (example_env submit) model_file ''blob:chair.glb'' 1 R1_1
          (getCanvasDimensions R1_1) box_model =
        deliver (options (example_env submit)) [0, 10, 20, 20, 90, 100, 100]
       \<lparr>spriteStripUrl =
          \<lparr>canvas_width = 1080, canvas_height = 1080,
           draws = [slot (fst ?g) (getCanvasDimensions R1_1) 0]\<rparr>,
        modelUrl = ''blob:chair.glb'', data_frameCount = 1, data_ratio = R1_1,
        data_metadata = \<lparr>originalFileName = ''chair.glb'', fileSize = 1024,
          fileType = ''model/gltf-binary'', meta_width = 1080, meta_height = 1080\<rparr>\<rparr>"
    unfolding renderAndCompose_def using c sn
    by (simp add: split_beta Let_def example_env_def model_file_def)
  then show ?thesis
    by (simp add: generateSpriteStrip_def Let_def example_env_def gltf_only_def loadModel_def
        model_file_def)
qed

text \<open>
  How the run ends once the hooks are reached, and where progress is set to 100.
\<close>

lemma deliver_hooks:
  "run_outcome (deliver opts sh d) =
     (case hooks opts d of
        Resolved u \<Rightarrow> Resolved (Some d) | Rejected e \<Rightarrow> Rejected e | Pending \<Rightarrow> Pending)"
  by (simp add: deliver_def hooks_def split: option.splits promise.splits)

lemma renderAndCompose_100:
  "(100 \<in> set (run_progress (renderAndCompose env mf url n ratio dims model)))
     = (\<exists>strip. createSpriteStrip (fst (generateFrames model n dims ratio)) dims (loadOrder env)
                 = Resolved strip)"
proof -
  obtain frames reported where g: "generateFrames model n dims ratio = (frames, reported)"
    by (cases "generateFrames model n dims ratio") auto
  then have "reported = snd (generateFrames model n dims ratio)" by simp
  then have sh: "[0, 10, 20] @ map (\<lambda>p. 20 + p * 0.7) reported @ [90] = shown n"
    by (simp only: shown_generateFrames)
  have f: "fst (generateFrames model n dims ratio) = frames"
    by (simp add: g)
  show ?thesis
  proof (cases "createSpriteStrip frames dims (loadOrder env)")
    case (Resolved strip)
    then show ?thesis
      unfolding renderAndCompose_def g Let_def prod.case sh f
      by (simp add: deliver_progress)
  next
    case (Rejected e)
    then show ?thesis
      unfolding renderAndCompose_def g Let_def prod.case sh f
      using shown_not_100 [of n] by simp
  next
    case Pending
    then show ?thesis
      unfolding renderAndCompose_def g Let_def prod.case sh f
      using shown_not_100 [of n] by simp
  qed
qed

text \<open>
  C7, as the code has it. The values passed to \<open>setProgress\<close> during a run never
  decrease, and a run that ends with the artifact has reported 100. Progress is set to 100
  as soon as the strip is composed, before \<open>onGenerate\<close> and \<open>onSubmit\<close> run:
  100 is reported exactly when the run reaches the hooks, which is when
  \<open>createSpriteStrip\<close> has resolved. From there the run ends as the hooks do: with
  the artifact when they succeed, and with their error when \<open>onGenerate\<close> throws or
  \<open>onSubmit\<close> rejects, after 100 has been reported. So when the hooks, if any,
  succeed, and in particular when none is configured, 100 is reported exactly when the run
  ends with the artifact.
\<close>

theorem generateSpriteStrip_progress:
  "sorted (run_progress (generateSpriteStrip env modelFile textureFile))
   \<and> (\<forall>d. run_outcome (generateSpriteStrip env modelFile textureFile) = Resolved (Some d)
          \<longrightarrow> 100 \<in> set (run_progress (generateSpriteStrip env modelFile textureFile)))
   \<and> (onGenerate (options env) = None \<and> onSubmit (options env) = None \<longrightarrow>
        (100 \<in> set (run_progress (generateSpriteStrip env modelFile textureFile)))
          = (\<exists>d. run_outcome (generateSpriteStrip env modelFile textureFile)
                   = Resolved (Some d)))
   \<and> (100 \<in> set (run_progress (generateSpriteStrip env modelFile textureFile)))
        = (\<exists>d. generateSpriteStrip env modelFile textureFile
                 = deliver (options env) (shown (effectiveFrameCount env) @ [100, 100]) d)
   \<and> (\<forall>d. generateSpriteStrip env modelFile textureFile
              = deliver (options env) (shown (effectiveFrameCount env) @ [100, 100]) d
          \<longrightarrow> run_progress (generateSpriteStrip env modelFile textureFile)
                = shown (effectiveFrameCount env) @ [100, 100]
              \<and> run_outcome (generateSpriteStrip env modelFile textureFile)
                = (case hooks (options env) d of
                     Resolved u \<Rightarrow> Resolved (Some d)
                   | Rejected e \<Rightarrow> Rejected e
                   | Pending \<Rightarrow> Pending))
   \<and> (\<forall>d e. generateSpriteStrip env modelFile textureFile
              = deliver (options env) (shown (effectiveFrameCount env) @ [100, 100]) d
            \<and> hooks (options env) d = Rejected e
          \<longrightarrow> run_outcome (generateSpriteStrip env modelFile textureFile) = Rejected e
              \<and> 100 \<in> set (run_progress (generateSpriteStrip env modelFile textureFile)))
   \<and> ((\<forall>d. hooks (options env) d = Resolved ()) \<longrightarrow>
        (100 \<in> set (run_progress (generateSpriteStrip env modelFile textureFile)))
          = (\<exists>d. run_outcome (generateSpriteStrip env modelFile textureFile)
                   = Resolved (Some d)))
   \<and> (100 \<in> set (run_progress (renderAndCompose env mf url n ratio dims model)))
        = (\<exists>strip. createSpriteStrip (fst (generateFrames model n dims ratio)) dims
                      (loadOrder env) = Resolved strip)"
proof -
  let ?r = "generateSpriteStrip env modelFile textureFile"
  let ?n = "effectiveFrameCount env"
  have reached: "run_progress ?r = shown ?n @ [100, 100]
      \<and> run_outcome ?r = (case hooks (options env) d of
                     Resolved u \<Rightarrow> Resolved (Some d)
                   | Rejected e \<Rightarrow> Rejected e
                   | Pending \<Rightarrow> Pending)"
    if "?r = deliver (options env) (shown ?n @ [100, 100]) d" for d
    using deliver_progress [of "options env" "shown ?n @ [100, 100]" d]
      deliver_hooks [of "options env" "shown ?n @ [100, 100]" d] that
    by simp
  have c5: "\<forall>d. ?r = deliver (options env) (shown ?n @ [100, 100]) d
          \<longrightarrow> run_progress ?r = shown ?n @ [100, 100]
              \<and> run_outcome ?r = (case hooks (options env) d of
                     Resolved u \<Rightarrow> Resolved (Some d)
                   | Rejected e \<Rightarrow> Rejected e
                   | Pending \<Rightarrow> Pending)"
    using reached by blast
  have c6: "\<forall>d e. ?r = deliver (options env) (shown ?n @ [100, 100]) d
            \<and> hooks (options env) d = Rejected e
          \<longrightarrow> run_outcome ?r = Rejected e \<and> 100 \<in> set (run_progress ?r)"
  proof (intro allI impI)
    fix d e
    assume a: "?r = deliver (options env) (shown ?n @ [100, 100]) d
            \<and> hooks (options env) d = Rejected e"
    with reached [of d] show "run_outcome ?r = Rejected e \<and> 100 \<in> set (run_progress ?r)"
      by simp
  qed
  have r100: "100 \<in> set (run_progress ?r)"
    if "?r = deliver (options env) (shown ?n @ [100, 100]) d" for d
    using reached [OF that] by simp
  consider (skip) "?r = \<lparr>run_progress = [], run_outcome = Resolved None\<rparr>"
    | (load) "run_progress ?r = [0, 10]" "\<forall>x. run_outcome ?r \<noteq> Resolved x"
    | (strip) "run_progress ?r = shown ?n" "\<forall>x. run_outcome ?r \<noteq> Resolved x"
    | (made) d where "?r = deliver (options env) (shown ?n @ [100, 100]) d"
    using generateSpriteStrip_shape [of env modelFile textureFile] by blast
  then have rest: "sorted (run_progress ?r)
   \<and> (\<forall>d. run_outcome ?r = Resolved (Some d) \<longrightarrow> 100 \<in> set (run_progress ?r))
   \<and> (onGenerate (options env) = None \<and> onSubmit (options env) = None \<longrightarrow>
        (100 \<in> set (run_progress ?r)) = (\<exists>d. run_outcome ?r = Resolved (Some d)))
   \<and> (100 \<in> set (run_progress ?r))
        = (\<exists>d. ?r = deliver (options env) (shown ?n @ [100, 100]) d)
   \<and> ((\<forall>d. hooks (options env) d = Resolved ()) \<longrightarrow>
        (100 \<in> set (run_progress ?r)) = (\<exists>d. run_outcome ?r = Resolved (Some d)))"
  proof cases
    case skip
    then have "100 \<notin> set (run_progress ?r)" by simp
    with r100 have "\<nexists>d. ?r = deliver (options env) (shown ?n @ [100, 100]) d"
      by blast
    with skip show ?thesis by simp
  next
    case load
    then have "100 \<notin> set (run_progress ?r)" by simp
    with r100 have "\<nexists>d. ?r = deliver (options env) (shown ?n @ [100, 100]) d"
      by blast
    with load show ?thesis by simp
  next
    case strip
    then have "100 \<notin> set (run_progress ?r)"
      using shown_not_100 [of ?n] by simp
    with r100 have "\<nexists>d. ?r = deliver (options env) (shown ?n @ [100, 100]) d"
      by blast
    with strip show ?thesis
      using sorted_shown [of ?n] shown_not_100 [of ?n] by simp
  next
    case made
    have p: "run_progress ?r = shown ?n @ [100, 100]"
      by (simp only: made deliver_progress)
    have s: "sorted (run_progress ?r)"
      by (simp only: p sorted_shown_done)
    have h: "100 \<in> set (run_progress ?r)"
      by (simp add: p)
    have n: "onGenerate (options env) = None \<and> onSubmit (options env) = None \<longrightarrow>
            (\<exists>d. run_outcome ?r = Resolved (Some d))"
      using deliver_no_hooks [of "options env" "shown ?n @ [100, 100]" d] made by auto
    have g: "(\<forall>d. hooks (options env) d = Resolved ()) \<longrightarrow>
            (\<exists>d. run_outcome ?r = Resolved (Some d))"
      using reached [OF made] by auto
    from made have m: "\<exists>d. ?r = deliver (options env) (shown ?n @ [100, 100]) d"
      by blast
    from s h n g m show ?thesis by blast
  qed
  from rest c5 c6 renderAndCompose_100 [of env mf url n ratio dims model] show ?thesis
    by (intro conjI) blast+
qed

theorem generateSpriteStrip_progress_witness:
  "(\<forall>d. hooks (options (example_env (Some (\<lambda>d. Resolved ())))) d = Resolved ())
   \<and> run_progress (generateSpriteStrip (example_env (Some (\<lambda>d. Resolved ())))
        (Some model_file) None) = [0, 10, 20, 20, 90, 100, 100]
   \<and> sorted (run_progress (generateSpriteStrip (example_env (Some (\<lambda>d. Resolved ())))
        (Some model_file) None))
   \<and> (\<exists>d. run_outcome (generateSpriteStrip (example_env (Some (\<lambda>d. Resolved ())))
        (Some model_file) None) = Resolved (Some d))"
proof -
  let ?env = "example_env (Some (\<lambda>d. Resolved ()))"
  have h: "\<forall>d. hooks (options ?env) d = Resolved ()"
    by (simp add: example_env_def hooks_def)
  have p: "run_progress (generateSpriteStrip ?env (Some model_file) None)
     = [0, 10, 20, 20, 90, 100, 100]"
    by (simp only: example_run deliver_progress)
  then have "100 \<in> set (run_progress (generateSpriteStrip ?env (Some model_file) None))"
    by simp
  with h p generateSpriteStrip_progress [of ?env "Some model_file" None]
  show ?thesis by blast
qed

text \<open>
  C7 as stated fails: when the awaited \<open>onSubmit\<close> hook rejects, the run has already
  reported 100 (twice) and then fails with the error of the hook.
\<close>

theorem generateSpriteStrip_submit_failure_counterexample:
  "run_progress (generateSpriteStrip
       (example_env (Some (\<lambda>d. Rejected (Error ''database unavailable''))))
       (Some model_file) None) = [0, 10, 20, 20, 90, 100, 100]
   \<and> run_outcome (generateSpriteStrip
       (example_env (Some (\<lambda>d. Rejected (Error ''database unavailable''))))
       (Some model_file) None) = Rejected (Error ''database unavailable'')"
  by (simp add: example_run) (simp add: deliver_def example_env_def)

text \<open>
  C9. When the texture that a run would use fails to load, the run is the run without any
  texture: the same progress and the same outcome, so on success the same artifact,
  rendered from the model with the materials it was loaded with.
\<close>

theorem texture_failure_is_absorbed:
  assumes "textureLoader env t = None"
    and "(case appliedTexture env of Some a \<Rightarrow> Some a | None \<Rightarrow> textureFile) = Some t"
  shows "generateSpriteStrip env modelFile textureFile
           = generateSpriteStrip (env\<lparr>appliedTexture := None\<rparr>) modelFile None"
proof (cases modelFile)
  case None
  then show ?thesis by (simp add: generateSpriteStrip_def)
next
  case (Some mf)
  have r: "renderAndCompose (env\<lparr>appliedTexture := None\<rparr>) = renderAndCompose env"
    by (intro ext) (simp add: renderAndCompose_def Let_def split: prod.splits promise.splits)
  show ?thesis
    using assms Some
    by (simp add: generateSpriteStrip_def Let_def applyTextureToModel_def r
        split: promise.splits)
qed

theorem texture_failure_is_absorbed_witness:
  "textureLoader (example_env None) texture_file = None
   \<and> generateSpriteStrip (example_env None) (Some model_file) (Some texture_file)
       = generateSpriteStrip (example_env None) (Some model_file) None
   \<and> run_progress (generateSpriteStrip (example_env None) (Some model_file) (Some texture_file))
       = [0, 10, 20, 20, 90, 100, 100]"
proof -
  have a: "textureLoader (example_env None) texture_file = None"
    by (simp add: example_env_def)
  have b: "(case appliedTexture (example_env None) of Some a \<Rightarrow> Some a
            | None \<Rightarrow> Some texture_file) = Some texture_file"
    by (simp add: example_env_def)
  have c: "(example_env None)\<lparr>appliedTexture := None\<rparr> = example_env None"
    by (simp add: example_env_def)
  from texture_failure_is_absorbed [OF a b, of "Some model_file"] c
  have "generateSpriteStrip (example_env None) (Some model_file) (Some texture_file)
       = generateSpriteStrip (example_env None) (Some model_file) None"
    by simp
  with a show ?thesis
    by (simp only: example_run deliver_progress)
qed

end
